theory Spec2Isabelle
  imports Main
begin

section \<open>Python values and exceptions\<close>

text \<open>
  The three modules pass around dynamically typed values: keyword arguments, decoded
  JSON bodies, dictionaries built on the fly. They are modelled by one datatype of
  Python values of the kinds that JSON decoding and the setters produce (floats are left
  out). A dictionary is an association list in insertion order whose keys are strings.
  Strings are lists of 8-bit characters.
\<close>

datatype pyval =
    PNone
  | PBool bool
  | PInt int
  | PStr string
  | PList "pyval list"
  | PDict "(string \<times> pyval) list"

text \<open>
  Exceptions are values. \<open>ValueError\<close> also stands for its subclass raised by
  \<open>Response.json()\<close> on a body that is not JSON; \<open>ConnectionError\<close> stands for any
  exception raised by the HTTP transport.
\<close>

datatype error =
    ValueError
  | NotAuthenticatedError
  | AttributeError
  | TypeError
  | KeyError
  | IndexError
  | ConnectionError
  | Unmodelled

text \<open>Truthiness, as \<open>if v:\<close> and \<open>not v\<close> test it.\<close>

fun py_truthy :: "pyval \<Rightarrow> bool" where
  "py_truthy PNone = False"
| "py_truthy (PBool b) = b"
| "py_truthy (PInt n) = (n \<noteq> 0)"
| "py_truthy (PStr s) = (s \<noteq> [])"
| "py_truthy (PList xs) = (xs \<noteq> [])"
| "py_truthy (PDict kvs) = (kvs \<noteq> [])"

text \<open>\<open>a or b\<close>.\<close>

definition py_or :: "pyval \<Rightarrow> pyval \<Rightarrow> pyval" where
  "py_or a b = (if py_truthy a then a else b)"

text \<open>\<open>len(v)\<close>: a \<open>TypeError\<close> for a value that has no length.\<close>

fun py_len :: "pyval \<Rightarrow> error + nat" where
  "py_len (PStr s) = Inr (length s)"
| "py_len (PList xs) = Inr (length xs)"
| "py_len (PDict kvs) = Inr (length kvs)"
| "py_len _ = Inl TypeError"

text \<open>\<open>d.get(k, default)\<close>: only a dictionary has the method.\<close>

fun py_get :: "pyval \<Rightarrow> string \<Rightarrow> pyval \<Rightarrow> error + pyval" where
  "py_get (PDict kvs) k d = Inr (case map_of kvs k of None \<Rightarrow> d | Some v \<Rightarrow> v)"
| "py_get _ k d = Inl AttributeError"

text \<open>
  \<open>d[k]\<close> with a string key: \<open>KeyError\<close> for a missing key, \<open>TypeError\<close> for a
  value that cannot be subscripted by a string.
\<close>

fun py_getitem :: "pyval \<Rightarrow> string \<Rightarrow> error + pyval" where
  "py_getitem (PDict kvs) k = (case map_of kvs k of None \<Rightarrow> Inl KeyError | Some v \<Rightarrow> Inr v)"
| "py_getitem _ k = Inl TypeError"

text \<open>
  \<open>v[0]\<close>: the first element of a list, the first character of a string; a dictionary
  with string keys has no key \<open>0\<close>.
\<close>

fun py_getitem0 :: "pyval \<Rightarrow> error + pyval" where
  "py_getitem0 (PList xs) = (case xs of [] \<Rightarrow> Inl IndexError | x # _ \<Rightarrow> Inr x)"
| "py_getitem0 (PStr s) = (case s of [] \<Rightarrow> Inl IndexError | c # _ \<Rightarrow> Inr (PStr [c]))"
| "py_getitem0 (PDict kvs) = Inl KeyError"
| "py_getitem0 _ = Inl TypeError"

text \<open>
  The elements \<open>for x in v\<close> visits: the items of a list, the characters of a string,
  the keys of a dictionary.
\<close>

fun py_iter :: "pyval \<Rightarrow> error + pyval list" where
  "py_iter (PList xs) = Inr xs"
| "py_iter (PStr s) = Inr (map (\<lambda>c. PStr [c]) s)"
| "py_iter (PDict kvs) = Inr (map (\<lambda>kv. PStr (fst kv)) kvs)"
| "py_iter _ = Inl TypeError"

text \<open>
  \<open>(x, y) = v\<close>: \<open>TypeError\<close> when \<open>v\<close> is not iterable, \<open>ValueError\<close> when it does
  not have exactly two elements.
\<close>

definition py_unpack2 :: "pyval \<Rightarrow> error + pyval \<times> pyval" where
  "py_unpack2 v =
     (case py_iter v of
        Inl e \<Rightarrow> Inl e
      | Inr xs \<Rightarrow> (case xs of [x, y] \<Rightarrow> Inr (x, y) | _ \<Rightarrow> Inl ValueError))"

text \<open>
  \<open>str.strip()\<close>: the whitespace characters among the code points below 256.
\<close>

definition py_isspace :: "char \<Rightarrow> bool" where
  "py_isspace c =
     ((of_char c :: nat) \<in> {9, 10, 11, 12, 13, 28, 29, 30, 31, 32, 133, 160})"

definition py_strip :: "string \<Rightarrow> string" where
  "py_strip s = rev (dropWhile py_isspace (rev (dropWhile py_isspace s)))"

definition opt_str :: "string option \<Rightarrow> pyval" where
  "opt_str s = (case s of None \<Rightarrow> PNone | Some x \<Rightarrow> PStr x)"

definition opt_int :: "int option \<Rightarrow> pyval" where
  "opt_int n = (case n of None \<Rightarrow> PNone | Some x \<Rightarrow> PInt x)"

section \<open>The messaging client: \<open>DiscordEmbed\<close>\<close>

text \<open>\<open>DiscordEmbed.Limits\<close>.\<close>

definition TitleLength :: nat where "TitleLength = 256"
definition DescriptionLength :: nat where "DescriptionLength = 2048"
definition Fields :: nat where "Fields = 25"
definition MaxLength :: nat where "MaxLength = 6000"

text \<open>
  The twelve attributes of an embed. Each holds whatever the caller stored, so each is a
  Python value, \<open>PNone\<close> when unset.
\<close>

record DiscordEmbed =
  e_title :: pyval
  e_description :: pyval
  e_url :: pyval
  e_timestamp :: pyval
  e_color :: pyval
  e_footer :: pyval
  e_image :: pyval
  e_thumbnail :: pyval
  e_video :: pyval
  e_provider :: pyval
  e_author :: pyval
  e_fields :: pyval

text \<open>\<open>kwargs.get(k)\<close> and \<open>kwargs.get(k, d)\<close> on the keyword arguments.\<close>

definition kw_get :: "(string \<times> pyval) list \<Rightarrow> string \<Rightarrow> pyval \<Rightarrow> pyval" where
  "kw_get kwargs k d = (case map_of kwargs k of None \<Rightarrow> d | Some v \<Rightarrow> v)"

text \<open>\<open>DiscordEmbed.__init__\<close>: the field list defaults to the empty list, not to \<open>None\<close>.\<close>

definition DiscordEmbed_init :: "(string \<times> pyval) list \<Rightarrow> DiscordEmbed" where
  "DiscordEmbed_init kwargs =
     \<lparr> e_title = kw_get kwargs ''title'' PNone,
       e_description = kw_get kwargs ''description'' PNone,
       e_url = kw_get kwargs ''url'' PNone,
       e_timestamp = kw_get kwargs ''timestamp'' PNone,
       e_color = kw_get kwargs ''color'' PNone,
       e_footer = kw_get kwargs ''footer'' PNone,
       e_image = kw_get kwargs ''image'' PNone,
       e_thumbnail = kw_get kwargs ''thumbnail'' PNone,
       e_video = kw_get kwargs ''video'' PNone,
       e_provider = kw_get kwargs ''provider'' PNone,
       e_author = kw_get kwargs ''author'' PNone,
       e_fields = kw_get kwargs ''fields'' (PList []) \<rparr>"

text \<open>
  The comprehension of \<open>embed_length\<close>:
  \<^verbatim>\<open>[len(x) + len(y) for f in self._fields for (x, y) in [f.get('name', ''), f.get('value', '')]]\<close>.
  For one field \<open>f\<close> the inner loop visits the two-element list of the name and the
  value, and unpacks each of the two in turn into \<open>(x, y)\<close>.
\<close>

definition unpacked_len :: "pyval \<Rightarrow> error + nat" where
  "unpacked_len item =
     (case py_unpack2 item of
        Inl e \<Rightarrow> Inl e
      | Inr (x, y) \<Rightarrow>
          (case py_len x of
             Inl e \<Rightarrow> Inl e
           | Inr lx \<Rightarrow> (case py_len y of Inl e \<Rightarrow> Inl e | Inr ly \<Rightarrow> Inr (lx + ly))))"

definition field_lengths :: "pyval \<Rightarrow> error + nat list" where
  "field_lengths f =
     (case py_get f ''name'' (PStr []) of
        Inl e \<Rightarrow> Inl e
      | Inr n \<Rightarrow>
          (case py_get f ''value'' (PStr []) of
             Inl e \<Rightarrow> Inl e
           | Inr v \<Rightarrow>
               (case unpacked_len n of
                  Inl e \<Rightarrow> Inl e
                | Inr ln \<Rightarrow> (case unpacked_len v of Inl e \<Rightarrow> Inl e | Inr lv \<Rightarrow> Inr [ln, lv]))))"

fun fields_lengths :: "pyval list \<Rightarrow> error + nat list" where
  "fields_lengths [] = Inr []"
| "fields_lengths (f # fs) =
     (case field_lengths f of
        Inl e \<Rightarrow> Inl e
      | Inr ls \<Rightarrow> (case fields_lengths fs of Inl e \<Rightarrow> Inl e | Inr rest \<Rightarrow> Inr (ls @ rest)))"

text \<open>\<open>DiscordEmbed.embed_length\<close>, statement by statement.\<close>

definition embed_length :: "DiscordEmbed \<Rightarrow> error + nat" where
  "embed_length e =
     (case py_len (py_or (e_title e) (PStr [])) of
        Inl err \<Rightarrow> Inl err
      | Inr l1 \<Rightarrow>
     (case py_len (py_or (e_description e) (PStr [])) of
        Inl err \<Rightarrow> Inl err
      | Inr l2 \<Rightarrow>
     (case (if e_footer e \<noteq> PNone
            then (case py_get (e_footer e) ''text'' (PStr []) of
                    Inl err \<Rightarrow> Inl err | Inr t \<Rightarrow> py_len t)
            else Inr 0) of
        Inl err \<Rightarrow> Inl err
      | Inr l3 \<Rightarrow>
     (case (if e_author e \<noteq> PNone
            then (case py_get (e_author e) ''name'' (PStr []) of
                    Inl err \<Rightarrow> Inl err | Inr t \<Rightarrow> py_len t)
            else Inr 0) of
        Inl err \<Rightarrow> Inl err
      | Inr l4 \<Rightarrow>
     (case (if e_fields e \<noteq> PNone
            then (case py_iter (e_fields e) of
                    Inl err \<Rightarrow> Inl err
                  | Inr fs \<Rightarrow>
                      (case fields_lengths fs of
                         Inl err \<Rightarrow> Inl err | Inr ls \<Rightarrow> Inr (sum_list ls)))
            else Inr 0) of
        Inl err \<Rightarrow> Inl err
      | Inr l5 \<Rightarrow> Inr (l1 + l2 + l3 + l4 + l5))))))"

text \<open>\<open>DiscordEmbed.is_empty\<close>: all twelve attributes are \<open>None\<close>.\<close>

definition is_empty :: "DiscordEmbed \<Rightarrow> bool" where
  "is_empty e =
     list_all (\<lambda>v. v = PNone)
       [e_title e, e_description e, e_url e, e_timestamp e, e_color e, e_footer e,
        e_image e, e_thumbnail e, e_video e, e_provider e, e_author e, e_fields e]"

text \<open>
  \<open>DiscordEmbed.is_embed_valid\<close>: \<open>embed_length\<close> runs first and may raise; \<open>and\<close>
  evaluates \<open>is_empty\<close> only when the length is within the limit.
\<close>

definition is_embed_valid :: "DiscordEmbed \<Rightarrow> error + bool" where
  "is_embed_valid e =
     (case embed_length e of
        Inl err \<Rightarrow> Inl err
      | Inr n \<Rightarrow> Inr (n \<le> MaxLength \<and> \<not> is_empty e))"

subsection \<open>Setters\<close>

definition set_title :: "DiscordEmbed \<Rightarrow> string option \<Rightarrow> error + DiscordEmbed" where
  "set_title e title =
     (case title of
        None \<Rightarrow> Inr (e\<lparr>e_title := PNone\<rparr>)
      | Some t \<Rightarrow>
          if t \<noteq> []
          then (if length (py_strip t) > TitleLength then Inl ValueError
                else Inr (e\<lparr>e_title := PStr (py_strip t)\<rparr>))
          else Inr (e\<lparr>e_title := PStr t\<rparr>))"

definition set_description :: "DiscordEmbed \<Rightarrow> string option \<Rightarrow> error + DiscordEmbed" where
  "set_description e description =
     (case description of
        None \<Rightarrow> Inr (e\<lparr>e_description := PNone\<rparr>)
      | Some d \<Rightarrow>
          if d \<noteq> []
          then (if length (py_strip d) > DescriptionLength then Inl ValueError
                else Inr (e\<lparr>e_description := PStr (py_strip d)\<rparr>))
          else Inr (e\<lparr>e_description := PStr d\<rparr>))"

definition set_url :: "DiscordEmbed \<Rightarrow> string option \<Rightarrow> DiscordEmbed" where
  "set_url e url = e\<lparr>e_url := opt_str url\<rparr>"

text \<open>
  \<open>set_timestamp\<close>: \<open>None\<close> clears, a non-empty string is stored, the empty string
  stores the current time, here the argument \<open>now\<close>
  (\<open>datetime.now().astimezone().isoformat()\<close>).
\<close>

definition set_timestamp :: "DiscordEmbed \<Rightarrow> string option \<Rightarrow> string \<Rightarrow> DiscordEmbed" where
  "set_timestamp e timestamp now =
     (case timestamp of
        None \<Rightarrow> e\<lparr>e_timestamp := PNone\<rparr>
      | Some t \<Rightarrow> if t \<noteq> [] then e\<lparr>e_timestamp := PStr t\<rparr> else e\<lparr>e_timestamp := PStr now\<rparr>)"

definition set_color_decimal :: "DiscordEmbed \<Rightarrow> int option \<Rightarrow> DiscordEmbed" where
  "set_color_decimal e color = e\<lparr>e_color := opt_int color\<rparr>"

definition set_color_rgb :: "DiscordEmbed \<Rightarrow> int \<Rightarrow> int \<Rightarrow> int \<Rightarrow> error + DiscordEmbed" where
  "set_color_rgb e r g b =
     (if r > 255 \<or> g > 255 \<or> b > 255 then Inl ValueError
      else Inr (e\<lparr>e_color := PInt (r * 2 ^ 16 + g * 2 ^ 8 + b)\<rparr>))"

definition set_footer :: "DiscordEmbed \<Rightarrow> string \<Rightarrow> DiscordEmbed" where
  "set_footer e footer = e\<lparr>e_footer := PStr (py_strip footer)\<rparr>"

text \<open>
  The dictionary \<open>set_image\<close>, \<open>set_thumbnail\<close> and \<open>set_video\<close> build: the url, then
  each optional entry that is truthy.
\<close>

definition opt_entry_str :: "string \<Rightarrow> string option \<Rightarrow> (string \<times> pyval) list" where
  "opt_entry_str k v = (case v of None \<Rightarrow> [] | Some s \<Rightarrow> if s \<noteq> [] then [(k, PStr s)] else [])"

definition opt_entry_int :: "string \<Rightarrow> int option \<Rightarrow> (string \<times> pyval) list" where
  "opt_entry_int k v = (case v of None \<Rightarrow> [] | Some n \<Rightarrow> if n \<noteq> 0 then [(k, PInt n)] else [])"

definition set_image ::
  "DiscordEmbed \<Rightarrow> string \<Rightarrow> string option \<Rightarrow> int option \<Rightarrow> int option \<Rightarrow> DiscordEmbed" where
  "set_image e url proxy_url width height =
     (if url = [] then e\<lparr>e_image := PNone\<rparr>
      else e\<lparr>e_image := PDict ([(''url'', PStr url)] @ opt_entry_str ''proxy_url'' proxy_url
                 @ opt_entry_int ''width'' width @ opt_entry_int ''height'' height)\<rparr>)"

text \<open>
  \<open>set_thumbnail\<close> assigns to \<open>self.thumbnail\<close>, not to \<open>self._thumbnail\<close>. The class
  declares \<open>thumbnail\<close> as a property with a getter only, so the assignment raises
  \<open>AttributeError\<close> and stores nothing.
\<close>

definition assign_thumbnail_property :: "DiscordEmbed \<Rightarrow> pyval \<Rightarrow> error + DiscordEmbed" where
  "assign_thumbnail_property e v = Inl AttributeError"

definition set_thumbnail ::
  "DiscordEmbed \<Rightarrow> string \<Rightarrow> string option \<Rightarrow> int option \<Rightarrow> int option \<Rightarrow> error + DiscordEmbed" where
  "set_thumbnail e url proxy_url width height =
     (if url = [] then assign_thumbnail_property e PNone
      else assign_thumbnail_property e (PDict [(''url'', PStr url)]))"

definition set_video :: "DiscordEmbed \<Rightarrow> string \<Rightarrow> int option \<Rightarrow> int option \<Rightarrow> DiscordEmbed" where
  "set_video e url width height =
     (if url = [] then e\<lparr>e_video := PNone\<rparr>
      else e\<lparr>e_video := PDict ([(''url'', PStr url)]
                 @ opt_entry_int ''width'' width @ opt_entry_int ''height'' height)\<rparr>)"

definition set_provider :: "DiscordEmbed \<Rightarrow> string \<Rightarrow> string \<Rightarrow> DiscordEmbed" where
  "set_provider e url name = e\<lparr>e_provider := PDict [(''url'', PStr url), (''name'', PStr name)]\<rparr>"

text \<open>\<open>set_author\<close> stores the url under the key \<open>ur\<close>, as the source does.\<close>

definition set_author ::
  "DiscordEmbed \<Rightarrow> string \<Rightarrow> string option \<Rightarrow> string option \<Rightarrow> string option \<Rightarrow> DiscordEmbed" where
  "set_author e name url icon_url proxy_icon_url =
     e\<lparr>e_author := PDict ([(''name'', PStr (py_strip name))] @ opt_entry_str ''ur'' url
           @ opt_entry_str ''icon_url'' icon_url
           @ opt_entry_str ''proxy_icon_url'' proxy_icon_url)\<rparr>"

text \<open>
  \<open>add_field\<close>: \<open>len(self._fields)\<close> raises for a value without a length, and only a
  list has \<open>append\<close>.
\<close>

definition add_field :: "DiscordEmbed \<Rightarrow> string \<Rightarrow> string \<Rightarrow> bool option \<Rightarrow> error + DiscordEmbed" where
  "add_field e name val inline =
     (case py_len (e_fields e) of
        Inl err \<Rightarrow> Inl err
      | Inr n \<Rightarrow>
          if n = Fields then Inl ValueError
          else (case e_fields e of
                  PList fs \<Rightarrow>
                    Inr (e\<lparr>e_fields := PList (fs @
                      [PDict ([(''name'', PStr (py_strip name)), (''value'', PStr (py_strip val))]
                         @ (case inline of None \<Rightarrow> [] | Some b \<Rightarrow> [(''inline'', PBool b)]))])\<rparr>)
                | _ \<Rightarrow> Inl AttributeError))"

subsection \<open>The wire form\<close>

text \<open>
  The \<open>json\<close> property: one \<open>if attribute: data[key] = attribute\<close> per attribute, in this
  order. The result is the dictionary \<open>data\<close>, as the list of its items.
\<close>

definition attributes :: "DiscordEmbed \<Rightarrow> (string \<times> pyval) list" where
  "attributes e =
     [(''title'', e_title e), (''description'', e_description e), (''url'', e_url e),
      (''timestamp'', e_timestamp e), (''color'', e_color e), (''footer'', e_footer e),
      (''image'', e_image e), (''thumbnail'', e_thumbnail e), (''video'', e_video e),
      (''provider'', e_provider e), (''author'', e_author e), (''fields'', e_fields e)]"

definition json :: "DiscordEmbed \<Rightarrow> (string \<times> pyval) list" where
  "json e = filter (\<lambda>kv. py_truthy (snd kv)) (attributes e)"

section \<open>The HTTP boundary\<close>

text \<open>
  The \<open>requests\<close> library is outside the repository. A call to \<open>requests.get\<close> or
  \<open>requests.post\<close> is modelled against a world that records every request issued, in
  order, and answers from a script of replies: the next reply is consumed by each call,
  \<open>Some r\<close> is the response \<open>r\<close>, and \<open>None\<close> (or an exhausted script) is an exception
  raised by the transport. The world also holds the clock that \<open>datetime.now()\<close> reads
  and the decoded content of the credentials file (\<open>None\<close> when the path is not a file,
  \<open>Some PNone\<close> when the file cannot be decoded).
\<close>

datatype verb = GET | POST

record request =
  req_verb :: verb
  req_url :: string
  req_headers :: "(string \<times> pyval) list"
  req_params :: "(string \<times> pyval) list"
  req_json :: "pyval option"

text \<open>
  A response: its status, its headers, and what \<open>.json()\<close> decodes (\<open>None\<close> when the
  body is not JSON, where \<open>.json()\<close> raises a \<open>ValueError\<close>).
\<close>

record response =
  status_code :: int
  resp_headers :: "(string \<times> string) list"
  resp_json :: "pyval option"

record world =
  replies :: "response option list"
  sent :: "request list"
  clock :: string
  twitch_auth_file :: "pyval option"

text \<open>
  What \<open>requests\<close> does with the headers before anything is sent: a header whose value
  is \<open>None\<close> is dropped, and a value that is neither \<open>None\<close> nor a string is rejected
  with \<open>InvalidHeader\<close>, a \<open>ValueError\<close>. (The content of a string value is not
  checked here.)
\<close>

fun header_value_ok :: "pyval \<Rightarrow> bool" where
  "header_value_ok PNone = True"
| "header_value_ok (PStr v) = True"
| "header_value_ok _ = False"

definition requests_send :: "request \<Rightarrow> world \<Rightarrow> (error + response) \<times> world" where
  "requests_send rq w =
     (if \<not> list_all (\<lambda>kv. header_value_ok (snd kv)) (req_headers rq) then (Inl ValueError, w)
      else (case replies w of
              [] \<Rightarrow> (Inl ConnectionError, w\<lparr>sent := sent w @ [rq]\<rparr>)
            | None # rs \<Rightarrow> (Inl ConnectionError, w\<lparr>replies := rs, sent := sent w @ [rq]\<rparr>)
            | Some r # rs \<Rightarrow> (Inr r, w\<lparr>replies := rs, sent := sent w @ [rq]\<rparr>)))"

text \<open>
  \<open>response.headers[name]\<close>: the headers of a response are a case-insensitive
  dictionary, so the lookup ignores the case of the letters A to Z.
\<close>

definition py_lower_char :: "char \<Rightarrow> char" where
  "py_lower_char c =
     (if 65 \<le> (of_char c :: nat) \<and> (of_char c :: nat) \<le> 90
      then char_of ((of_char c :: nat) + 32) else c)"

definition py_lower :: "string \<Rightarrow> string" where
  "py_lower s = map py_lower_char s"

definition header_lookup :: "(string \<times> string) list \<Rightarrow> string \<Rightarrow> string option" where
  "header_lookup hs name = map_of (map (\<lambda>kv. (py_lower (fst kv), snd kv)) hs) (py_lower name)"

text \<open>\<open>response.json()\<close>.\<close>

definition response_json :: "response \<Rightarrow> error + pyval" where
  "response_json r = (case resp_json r of None \<Rightarrow> Inl ValueError | Some j \<Rightarrow> Inr j)"

section \<open>The messaging client: \<open>DiscordWebhook\<close>\<close>

definition EMBED_LIMIT :: nat where "EMBED_LIMIT = 10"

text \<open>
  A webhook: the targets (url, username override, avatar override), the content and the
  embeds, typed as the constructor annotates them.
\<close>

record DiscordWebhook =
  wh_urls :: "(string \<times> string option \<times> string option) list"
  wh_content :: "string option"
  wh_embeds :: "DiscordEmbed list option"

definition DiscordWebhook_init ::
  "(string \<times> string option \<times> string option) list \<Rightarrow> string option \<Rightarrow> DiscordEmbed list option
     \<Rightarrow> error + DiscordWebhook" where
  "DiscordWebhook_init urls content embeds =
     (if length urls = 0 then Inl ValueError
      else Inr \<lparr> wh_urls = urls, wh_content = content, wh_embeds = embeds \<rparr>)"

text \<open>
  \<open>__has_valid_message\<close>: the content is a non-empty string, or the embed list is a
  non-empty list. The embeds themselves are not looked at.
\<close>

definition has_valid_message :: "DiscordWebhook \<Rightarrow> bool" where
  "has_valid_message h =
     ((case wh_content h of None \<Rightarrow> False | Some c \<Rightarrow> length c > 0)
      \<or> (case wh_embeds h of None \<Rightarrow> False | Some es \<Rightarrow> length es > 0))"

definition add_embed :: "DiscordWebhook \<Rightarrow> DiscordEmbed option \<Rightarrow> error + DiscordWebhook" where
  "add_embed h emb =
     (case wh_embeds h of
        None \<Rightarrow> Inl TypeError
      | Some es \<Rightarrow>
          if length es = EMBED_LIMIT then Inl ValueError
          else (case emb of
                  None \<Rightarrow> Inl ValueError
                | Some e \<Rightarrow> Inr (h\<lparr>wh_embeds := Some (es @ [e])\<rparr>)))"

text \<open>
  The comprehension \<^verbatim>\<open>[x.json for x in self._embeds if x.is_embed_valid()]\<close>: an embed
  whose validity check raises aborts it.
\<close>

fun valid_embeds_json :: "DiscordEmbed list \<Rightarrow> error + pyval list" where
  "valid_embeds_json [] = Inr []"
| "valid_embeds_json (x # xs) =
     (case is_embed_valid x of
        Inl err \<Rightarrow> Inl err
      | Inr ok \<Rightarrow>
          (case valid_embeds_json xs of
             Inl err \<Rightarrow> Inl err
           | Inr js \<Rightarrow> Inr (if ok then PDict (json x) # js else js)))"

text \<open>The \<open>json_payload\<close> dictionary that \<open>__execute\<close> builds for one target.\<close>

definition embeds_entry :: "DiscordWebhook \<Rightarrow> error + (string \<times> pyval) list" where
  "embeds_entry h =
     (case wh_embeds h of
        None \<Rightarrow> Inr []
      | Some es \<Rightarrow>
          if es \<noteq> [] \<and> length es > 0
          then (case valid_embeds_json es of
                  Inl err \<Rightarrow> Inl err
                | Inr js \<Rightarrow> Inr [(''embeds'', PList js)])
          else Inr [])"

definition json_payload ::
  "DiscordWebhook \<Rightarrow> string option \<Rightarrow> string option \<Rightarrow> error + (string \<times> pyval) list" where
  "json_payload h username avatar_url =
     (case embeds_entry h of
        Inl err \<Rightarrow> Inl err
      | Inr entry \<Rightarrow>
          Inr (opt_entry_str ''content'' (wh_content h) @ entry
               @ opt_entry_str ''username'' username @ opt_entry_str ''avatar_url'' avatar_url))"

definition webhook_request :: "string \<Rightarrow> (string \<times> pyval) list \<Rightarrow> request" where
  "webhook_request url payload =
     \<lparr> req_verb = POST, req_url = url,
       req_headers = [(''Content-Type'', PStr ''application/json'')],
       req_params = [(''wait'', PStr ''true'')],
       req_json = Some (PDict payload) \<rparr>"

text \<open>
  \<open>__execute\<close>: one POST. A status other than 200 is only printed; an exception of the
  transport propagates.
\<close>

definition execute_one ::
  "DiscordWebhook \<Rightarrow> string \<Rightarrow> string option \<Rightarrow> string option \<Rightarrow> world \<Rightarrow> (error + unit) \<times> world" where
  "execute_one h url username avatar_url w =
     (if \<not> has_valid_message h then (Inl ValueError, w)
      else (case json_payload h username avatar_url of
              Inl err \<Rightarrow> (Inl err, w)
            | Inr payload \<Rightarrow>
                (case requests_send (webhook_request url payload) w of
                   (Inl err, w') \<Rightarrow> (Inl err, w')
                 | (Inr hook_res, w') \<Rightarrow> (Inr (), w'))))"

text \<open>The loop of \<open>execute\<close> over the targets: the first exception ends it.\<close>

fun execute_all ::
  "DiscordWebhook \<Rightarrow> (string \<times> string option \<times> string option) list \<Rightarrow> world
     \<Rightarrow> (error + unit) \<times> world" where
  "execute_all h [] w = (Inr (), w)"
| "execute_all h ((url, username, avatar_url) # rest) w =
     (case execute_one h url username avatar_url w of
        (Inl err, w') \<Rightarrow> (Inl err, w')
      | (Inr u, w') \<Rightarrow> execute_all h rest w')"

definition execute :: "DiscordWebhook \<Rightarrow> world \<Rightarrow> (error + unit) \<times> world" where
  "execute h w =
     (if \<not> has_valid_message h then (Inl ValueError, w)
      else execute_all h (wh_urls h) w)"

definition execute_on_urls ::
  "(string \<times> string option \<times> string option) list \<Rightarrow> string option \<Rightarrow> DiscordEmbed list option
     \<Rightarrow> world \<Rightarrow> (error + unit) \<times> world" where
  "execute_on_urls urls content embeds w =
     (case DiscordWebhook_init urls content embeds of
        Inl err \<Rightarrow> (Inl err, w)
      | Inr hook \<Rightarrow> execute hook w)"

text \<open>The transport answers the next \<open>n\<close> requests with a response.\<close>

definition answered :: "nat \<Rightarrow> world \<Rightarrow> bool" where
  "answered n w = (n \<le> length (replies w) \<and> list_all (\<lambda>r. r \<noteq> None) (take n (replies w)))"

section \<open>Formatting\<close>

text \<open>The decimal digits of a natural number, and \<open>str(n)\<close> for an integer.\<close>

fun nat_dec :: "nat \<Rightarrow> string" where
  "nat_dec n =
     (if n < 10 then [char_of (48 + n)]
      else nat_dec (n div 10) @ [char_of (48 + n mod 10)])"

declare nat_dec.simps [simp del]

definition int_dec :: "int \<Rightarrow> string" where
  "int_dec i = (if i < 0 then CHR ''-'' # nat_dec (nat (- i)) else nat_dec (nat i))"

text \<open>
  A value interpolated into an f-string. The \<open>repr\<close> of a list or a dictionary is not
  modelled: the model stops with \<open>Unmodelled\<close> there.
\<close>

fun py_format :: "pyval \<Rightarrow> error + string" where
  "py_format PNone = Inr ''None''"
| "py_format (PBool b) = Inr (if b then ''True'' else ''False'')"
| "py_format (PInt n) = Inr (int_dec n)"
| "py_format (PStr s) = Inr s"
| "py_format (PList xs) = Inl Unmodelled"
| "py_format (PDict kvs) = Inl Unmodelled"

text \<open>\<open>sep.join(xs)\<close>.\<close>

fun py_join :: "string \<Rightarrow> string list \<Rightarrow> string" where
  "py_join sep [] = []"
| "py_join sep [x] = x"
| "py_join sep (x # y # ys) = x @ sep @ py_join sep (y # ys)"

text \<open>\<open>s.isdecimal()\<close>: only a string has the method.\<close>

definition is_digit :: "char \<Rightarrow> bool" where
  "is_digit c = (48 \<le> (of_char c :: nat) \<and> (of_char c :: nat) \<le> 57)"

fun py_isdecimal :: "pyval \<Rightarrow> error + bool" where
  "py_isdecimal (PStr s) = Inr (s \<noteq> [] \<and> list_all is_digit s)"
| "py_isdecimal _ = Inl AttributeError"

section \<open>The platform API client: \<open>Twitch\<close>\<close>

text \<open>\<open>Twitch.Limits\<close> and \<open>Twitch.APIURL\<close>.\<close>

definition UserRequests :: nat where "UserRequests = 100"
definition VideoRequests :: nat where "VideoRequests = 100"
definition GamesRequests :: nat where "GamesRequests = 100"

definition AuthToken :: string where "AuthToken = ''https://id.twitch.tv/oauth2/token''"
definition RevokeToken :: string where "RevokeToken = ''https://id.twitch.tv/oauth2/revoke''"
definition ValidateToken :: string where "ValidateToken = ''https://id.twitch.tv/oauth2/validate''"
definition Users :: string where "Users = ''https://api.twitch.tv/helix/users''"
definition Channels :: string where "Channels = ''https://api.twitch.tv/helix/channels''"
definition Videos :: string where "Videos = ''https://api.twitch.tv/helix/videos''"
definition Games :: string where "Games = ''https://api.twitch.tv/helix/games''"

text \<open>The session. Credentials are whatever the credentials file and the API returned.\<close>

record Twitch =
  t_client_id :: pyval
  t_client_secret :: pyval
  t_access_token :: pyval
  t_refresh_token :: pyval
  t_is_authenticated :: bool
  t_scopes :: "string list option"

text \<open>
  \<open>__oauth\<close>. With a refresh token the response is only checked for its status; without
  one the returned tokens are stored.
\<close>

definition oauth :: "Twitch \<Rightarrow> world \<Rightarrow> (error + unit) \<times> Twitch \<times> world" where
  "oauth t w =
     (let params = [(''client_id'', t_client_id t), (''client_secret'', t_client_secret t)]
            @ (case t_scopes t of
                 None \<Rightarrow> []
               | Some sc \<Rightarrow> if sc \<noteq> [] \<and> length sc > 0
                           then [(''scopes'', PStr (py_join '' '' sc))] else [])
      in if t_refresh_token t \<noteq> PNone
         then (case requests_send
                      \<lparr> req_verb = POST, req_url = AuthToken, req_headers = [],
                        req_params = params @ [(''refresh_token'', t_refresh_token t),
                                               (''grant_type'', PStr ''refresh_token'')],
                        req_json = None \<rparr> w of
                 (Inl err, w') \<Rightarrow> (Inl err, t, w')
               | (Inr auth_res, w') \<Rightarrow>
                   if status_code auth_res \<noteq> 200 then (Inl ValueError, t, w')
                   else (Inr (), t, w'))
         else (case requests_send
                      \<lparr> req_verb = POST, req_url = AuthToken, req_headers = [],
                        req_params = params @ [(''grant_type'', PStr ''client_credentials'')],
                        req_json = None \<rparr> w of
                 (Inl err, w') \<Rightarrow> (Inl err, t, w')
               | (Inr auth_res, w') \<Rightarrow>
                   if status_code auth_res \<noteq> 200 then (Inl ValueError, t, w')
                   else (case response_json auth_res of
                           Inl err \<Rightarrow> (Inl err, t, w')
                         | Inr auth_data \<Rightarrow>
                             (case py_get auth_data ''access_token'' PNone of
                                Inl err \<Rightarrow> (Inl err, t, w')
                              | Inr a \<Rightarrow>
                                  (case py_get auth_data ''refresh_token'' PNone of
                                     Inl err \<Rightarrow> (Inl err, t\<lparr>t_access_token := a\<rparr>, w')
                                   | Inr r \<Rightarrow>
                                       (Inr (), t\<lparr>t_access_token := a, t_refresh_token := r\<rparr>, w'))))))"

text \<open>The challenge \<open>__validate_response\<close> compares the header with.\<close>

definition invalid_token_challenge :: string where
  "invalid_token_challenge =
     ''OAuth realm='' @ [char_of (39::nat)] @ ''TwitchTV'' @ [char_of (39::nat)] @ '', error=''
       @ [char_of (39::nat)] @ ''invalid_token''"

text \<open>
  \<open>__validate_response\<close>. A 401 whose challenge is something else counts as valid; a 401
  without the header raises \<open>KeyError\<close>; only a \<open>ValueError\<close> of \<open>__oauth\<close> is caught.
\<close>

definition validate_response :: "Twitch \<Rightarrow> response \<Rightarrow> world \<Rightarrow> (error + bool) \<times> Twitch \<times> world" where
  "validate_response t request_response w =
     (if status_code request_response = 401
      then (case header_lookup (resp_headers request_response) ''WWW-Authenticate'' of
              None \<Rightarrow> (Inl KeyError, t, w)
            | Some challenge \<Rightarrow>
                if challenge = invalid_token_challenge
                then (case oauth t w of
                        (Inl err, t', w') \<Rightarrow>
                          if err = ValueError then (Inr False, t', w') else (Inl err, t', w')
                      | (Inr u, t', w') \<Rightarrow> (Inr True, t', w'))
                else (Inr True, t, w))
      else if status_code request_response \<noteq> 200 then (Inr False, t, w)
      else (Inr True, t, w))"

text \<open>
  The request of \<open>__attempt_request_get\<close>, with \<open>tok\<close> the access token as the f-string
  formats it.
\<close>

definition api_request :: "Twitch \<Rightarrow> string \<Rightarrow> string \<Rightarrow> (string \<times> pyval) list \<Rightarrow> request" where
  "api_request t tok url params =
     \<lparr> req_verb = GET, req_url = url,
       req_headers = [(''Client-ID'', t_client_id t), (''Authorization'', PStr (''Bearer '' @ tok))],
       req_params = params, req_json = None \<rparr>"

text \<open>
  \<open>__attempt_request_get\<close>: the response, or \<open>None\<close> when it does not validate. Extra
  keyword arguments other than \<open>params\<close> are not modelled; no caller passes any.
\<close>

definition attempt_request_get ::
  "Twitch \<Rightarrow> string \<Rightarrow> (string \<times> pyval) list \<Rightarrow> world
     \<Rightarrow> (error + response option) \<times> Twitch \<times> world" where
  "attempt_request_get t url params w =
     (case py_format (t_access_token t) of
        Inl err \<Rightarrow> (Inl err, t, w)
      | Inr tok \<Rightarrow>
          (case requests_send (api_request t tok url params) w of
             (Inl err, w') \<Rightarrow> (Inl err, t, w')
           | (Inr res, w') \<Rightarrow>
               (case validate_response t res w' of
                  (Inl err, t', w'') \<Rightarrow> (Inl err, t', w'')
                | (Inr ok, t', w'') \<Rightarrow> (Inr (if ok then Some res else None), t', w''))))"

text \<open>
  \<open>response == 200\<close> in \<open>validate_token\<close> compares the response object itself with
  an integer. \<open>requests.Response\<close> defines no equality, so the comparison is by identity
  and is false for every response.
\<close>

definition response_eq_int :: "response \<Rightarrow> int \<Rightarrow> bool" where
  "response_eq_int r n = False"

definition validate_token :: "pyval \<Rightarrow> world \<Rightarrow> (error + pyval) \<times> world" where
  "validate_token access_token w =
     (if \<not> py_truthy access_token then (Inl ValueError, w)
      else (case py_format access_token of
              Inl err \<Rightarrow> (Inl err, w)
            | Inr tok \<Rightarrow>
                (case requests_send
                        \<lparr> req_verb = GET, req_url = ValidateToken,
                          req_headers = [(''Authorization'', PStr (''OAuth '' @ tok))],
                          req_params = [], req_json = None \<rparr> w of
                   (Inl err, w') \<Rightarrow> (Inl err, w')
                 | (Inr res, w') \<Rightarrow>
                     if response_eq_int res 200
                     then (case response_json res of
                             Inl err \<Rightarrow> (Inl err, w')
                           | Inr j \<Rightarrow>
                               (case py_get j ''client_id'' PNone of
                                  Inl err \<Rightarrow> (Inl err, w')
                                | Inr cid \<Rightarrow> (Inr cid, w')))
                     else (Inr PNone, w'))))"

text \<open>
  \<open>Twitch.__init__\<close>. An exception leaves no object; a \<open>ValueError\<close> of \<open>__oauth\<close> is
  caught and leaves an unauthenticated one.
\<close>

definition Twitch_init :: "pyval \<Rightarrow> string list option \<Rightarrow> world \<Rightarrow> (error + Twitch) \<times> world" where
  "Twitch_init auth_info scopes w =
     (let t = \<lparr> t_client_id = PNone, t_client_secret = PNone, t_access_token = PNone,
                t_refresh_token = PNone, t_is_authenticated = False, t_scopes = scopes \<rparr>
      in case py_get auth_info ''access_token'' PNone of
           Inl err \<Rightarrow> (Inl err, w)
         | Inr access_token \<Rightarrow>
        (case py_get auth_info ''client_id'' PNone of
           Inl err \<Rightarrow> (Inl err, w)
         | Inr client_id \<Rightarrow>
        (case py_get auth_info ''client_secret'' PNone of
           Inl err \<Rightarrow> (Inl err, w)
         | Inr client_secret \<Rightarrow>
             if access_token \<noteq> PNone
             then (case validate_token access_token w of
                     (Inl err, w') \<Rightarrow> (Inl err, w')
                   | (Inr cid, w') \<Rightarrow>
                       (Inr (t\<lparr>t_access_token := access_token, t_client_id := cid,
                                t_is_authenticated := (cid \<noteq> PNone)\<rparr>), w'))
             else if client_id \<noteq> PNone \<and> client_secret \<noteq> PNone
             then (case oauth (t\<lparr>t_client_id := client_id, t_client_secret := client_secret\<rparr>) w of
                     (Inl err, t', w') \<Rightarrow>
                       if err = ValueError then (Inr (t'\<lparr>t_is_authenticated := False\<rparr>), w')
                       else (Inl err, w')
                   | (Inr u, t', w') \<Rightarrow> (Inr (t'\<lparr>t_is_authenticated := True\<rparr>), w'))
             else (Inl ValueError, w))))"

text \<open>\<open>revoke_access\<close> and \<open>revoke_my_access\<close>.\<close>

definition revoke_access :: "pyval \<Rightarrow> pyval \<Rightarrow> world \<Rightarrow> (error + unit) \<times> world" where
  "revoke_access client_id access_token w =
     (if \<not> py_truthy client_id then (Inl ValueError, w)
      else if \<not> py_truthy access_token then (Inl ValueError, w)
      else (case requests_send
                    \<lparr> req_verb = POST, req_url = RevokeToken, req_headers = [],
                      req_params = [(''client_id'', client_id), (''token'', access_token)],
                      req_json = None \<rparr> w of
              (Inl err, w') \<Rightarrow> (Inl err, w')
            | (Inr res, w') \<Rightarrow> (Inr (), w')))"

definition revoke_my_access :: "Twitch \<Rightarrow> world \<Rightarrow> (error + unit) \<times> Twitch \<times> world" where
  "revoke_my_access t w =
     (case revoke_access (t_client_id t) (t_access_token t) w of
        (Inl err, w') \<Rightarrow> (Inl err, t, w')
      | (Inr u, w') \<Rightarrow> (Inr (), t\<lparr>t_is_authenticated := False\<rparr>, w'))"

subsection \<open>Metadata operations\<close>

text \<open>
  The query parameters of \<open>get_users_info\<close> and \<open>get_games_info\<close>: an id made of
  decimal digits goes under \<open>id\<close>, any other under \<open>other\<close> (\<open>login\<close> for users,
  \<open>name\<close> for games).
\<close>

fun id_payload :: "string \<Rightarrow> pyval list \<Rightarrow> error + (string \<times> pyval) list" where
  "id_payload other [] = Inr []"
| "id_payload other (x # xs) =
     (case py_isdecimal x of
        Inl err \<Rightarrow> Inl err
      | Inr dec \<Rightarrow>
          (case id_payload other xs of
             Inl err \<Rightarrow> Inl err
           | Inr rest \<Rightarrow> Inr ((if dec then ''id'' else other, x) # rest)))"

text \<open>\<open>response.json().get('data', [])\<close>.\<close>

definition users_result :: "response \<Rightarrow> error + pyval" where
  "users_result res =
     (case response_json res of
        Inl err \<Rightarrow> Inl err
      | Inr j \<Rightarrow> py_get j ''data'' (PList []))"

definition get_users_info :: "Twitch \<Rightarrow> pyval list \<Rightarrow> world \<Rightarrow> (error + pyval) \<times> Twitch \<times> world" where
  "get_users_info t ids w =
     (if length ids > UserRequests then (Inl ValueError, t, w)
      else (case id_payload ''login'' ids of
              Inl err \<Rightarrow> (Inl err, t, w)
            | Inr payload \<Rightarrow>
                (case attempt_request_get t Users payload w of
                   (Inl err, t', w') \<Rightarrow> (Inl err, t', w')
                 | (Inr None, t', w') \<Rightarrow> (Inr PNone, t', w')
                 | (Inr (Some res), t', w') \<Rightarrow> (users_result res, t', w'))))"

text \<open>\<open>if info and len(info) == 1: return info[0]\<close>, else \<open>None\<close>.\<close>

definition single_record :: "pyval \<Rightarrow> error + pyval" where
  "single_record info =
     (if py_truthy info
      then (case py_len info of
              Inl err \<Rightarrow> Inl err
            | Inr n \<Rightarrow> if n = 1 then py_getitem0 info else Inr PNone)
      else Inr PNone)"

definition get_user_info :: "Twitch \<Rightarrow> pyval \<Rightarrow> world \<Rightarrow> (error + pyval) \<times> Twitch \<times> world" where
  "get_user_info t user w =
     (case get_users_info t [user] w of
        (Inl err, t', w') \<Rightarrow> (Inl err, t', w')
      | (Inr info, t', w') \<Rightarrow> (single_record info, t', w'))"

text \<open>\<open>if data is None or len(data) == 0: return None\<close>, else \<open>data[0]\<close>.\<close>

definition first_record :: "pyval \<Rightarrow> error + pyval" where
  "first_record data =
     (if data = PNone then Inr PNone
      else (case py_len data of
              Inl err \<Rightarrow> Inl err
            | Inr n \<Rightarrow> if n = 0 then Inr PNone else py_getitem0 data))"

definition channel_result :: "response \<Rightarrow> error + pyval" where
  "channel_result res =
     (case response_json res of
        Inl err \<Rightarrow> Inl err
      | Inr res_json \<Rightarrow>
          (case py_get res_json ''data'' PNone of
             Inl err \<Rightarrow> Inl err
           | Inr data \<Rightarrow> first_record data))"

definition get_channel_info :: "Twitch \<Rightarrow> pyval \<Rightarrow> world \<Rightarrow> (error + pyval) \<times> Twitch \<times> world" where
  "get_channel_info t user_id w =
     (case attempt_request_get t Channels [(''broadcaster_id'', user_id)] w of
        (Inl err, t', w') \<Rightarrow> (Inl err, t', w')
      | (Inr None, t', w') \<Rightarrow> (Inr PNone, t', w')
      | (Inr (Some res), t', w') \<Rightarrow> (channel_result res, t', w'))"

text \<open>
  \<open>get_videos_info\<close> starts by building the set \<open>{video_ids, user_id, game_id}\<close>, which
  raises \<open>TypeError\<close> when one of the three is a list or a dictionary (unhashable).
\<close>

fun py_hashable :: "pyval \<Rightarrow> bool" where
  "py_hashable (PList xs) = False"
| "py_hashable (PDict kvs) = False"
| "py_hashable _ = True"

text \<open>
  The query parameters of \<open>get_videos_info\<close>: the video ids when \<open>video_ids\<close> is truthy
  (at most 100), then the user id and the game id when truthy.
\<close>

definition videos_payload :: "pyval \<Rightarrow> pyval \<Rightarrow> pyval \<Rightarrow> error + (string \<times> pyval) list" where
  "videos_payload video_ids user_id game_id =
     (case (if py_truthy video_ids
            then (case py_len video_ids of
                    Inl err \<Rightarrow> Inl err
                  | Inr n \<Rightarrow>
                      if n > VideoRequests then Inl ValueError
                      else (case py_iter video_ids of
                              Inl err \<Rightarrow> Inl err
                            | Inr ids \<Rightarrow> Inr (map (\<lambda>x. (''id'', x)) ids)))
            else Inr []) of
        Inl err \<Rightarrow> Inl err
      | Inr payload \<Rightarrow>
          Inr (payload @ (if py_truthy user_id then [(''user_id'', user_id)] else [])
                 @ (if py_truthy game_id then [(''game_id'', game_id)] else [])))"

text \<open>
  The result of \<open>get_videos_info\<close> from the response: the pair of the video list and the
  pagination cursor, or \<open>None\<close> when the list is empty.
\<close>

definition videos_result :: "response \<Rightarrow> error + (pyval \<times> pyval) option" where
  "videos_result res =
     (case response_json res of
        Inl err \<Rightarrow> Inl err
      | Inr res_json \<Rightarrow>
          (case py_get res_json ''data'' (PList []) of
             Inl err \<Rightarrow> Inl err
           | Inr video_data \<Rightarrow>
               (case py_get res_json ''pagination'' (PDict []) of
                  Inl err \<Rightarrow> Inl err
                | Inr pg \<Rightarrow>
                    (case py_get pg ''cursor'' PNone of
                       Inl err \<Rightarrow> Inl err
                     | Inr pagination \<Rightarrow>
                         (case py_len video_data of
                            Inl err \<Rightarrow> Inl err
                          | Inr n \<Rightarrow> if n = 0 then Inr None
                                     else Inr (Some (video_data, pagination)))))))"

definition get_videos_info ::
  "Twitch \<Rightarrow> pyval \<Rightarrow> pyval \<Rightarrow> pyval \<Rightarrow> world
     \<Rightarrow> (error + (pyval \<times> pyval) option) \<times> Twitch \<times> world" where
  "get_videos_info t video_ids user_id game_id w =
     (if \<not> (py_hashable video_ids \<and> py_hashable user_id \<and> py_hashable game_id)
      then (Inl TypeError, t, w)
      else if video_ids = PNone \<and> user_id = PNone \<and> game_id = PNone
      then (Inl ValueError, t, w)
      else (case videos_payload video_ids user_id game_id of
              Inl err \<Rightarrow> (Inl err, t, w)
            | Inr payload \<Rightarrow>
                (case attempt_request_get t Videos payload w of
                   (Inl err, t', w') \<Rightarrow> (Inl err, t', w')
                 | (Inr None, t', w') \<Rightarrow> (Inr None, t', w')
                 | (Inr (Some res), t', w') \<Rightarrow> (videos_result res, t', w'))))"

text \<open>\<open>data = res_json.get('data', [])\<close>; \<open>None\<close> when it is empty, else \<open>data\<close>.\<close>

definition games_result :: "response \<Rightarrow> error + pyval" where
  "games_result res =
     (case response_json res of
        Inl err \<Rightarrow> Inl err
      | Inr res_json \<Rightarrow>
          (case py_get res_json ''data'' (PList []) of
             Inl err \<Rightarrow> Inl err
           | Inr data \<Rightarrow>
               (case py_len data of
                  Inl err \<Rightarrow> Inl err
                | Inr n \<Rightarrow> if n = 0 then Inr PNone else Inr data)))"

definition get_games_info :: "Twitch \<Rightarrow> pyval list \<Rightarrow> world \<Rightarrow> (error + pyval) \<times> Twitch \<times> world" where
  "get_games_info t games w =
     (if length games > GamesRequests then (Inl ValueError, t, w)
      else (case id_payload ''name'' games of
              Inl err \<Rightarrow> (Inl err, t, w)
            | Inr payload \<Rightarrow>
                (case attempt_request_get t Games payload w of
                   (Inl err, t', w') \<Rightarrow> (Inl err, t', w')
                 | (Inr None, t', w') \<Rightarrow> (Inr PNone, t', w')
                 | (Inr (Some res), t', w') \<Rightarrow> (games_result res, t', w'))))"

definition get_game_info :: "Twitch \<Rightarrow> pyval \<Rightarrow> world \<Rightarrow> (error + pyval) \<times> Twitch \<times> world" where
  "get_game_info t game w =
     (case get_games_info t [game] w of
        (Inl err, t', w') \<Rightarrow> (Inl err, t', w')
      | (Inr data, t', w') \<Rightarrow> (first_record data, t', w'))"

text \<open>The outcome of an operation with the session's flag set to \<open>b\<close>.\<close>

definition with_flag :: "bool \<Rightarrow> 'a \<times> Twitch \<times> world \<Rightarrow> 'a \<times> Twitch \<times> world" where
  "with_flag b out = (case out of (r, t, w) \<Rightarrow> (r, t\<lparr>t_is_authenticated := b\<rparr>, w))"

section \<open>The notification orchestrator\<close>

text \<open>
  \<open>BOXART_RATIO = 13/18\<close>, and \<open>round(n / d)\<close> for a positive \<open>d\<close>: to the nearest
  integer, a tie to the even one. The source computes in floating point; the model
  computes the quotient exactly, so the two can differ where the product is within
  rounding error of a tie and where it is too large for a double to hold exactly
  (beyond \<open>2^53\<close>). At a height of 72 they agree: the floating-point product is
  exactly 52.0 (the double nearest to 13/18 is below it by \<open>2/9 * 2^-54\<close>, the error of
  the product is \<open>2^-50\<close>, and the doubles next to 52 are \<open>2^-47\<close> apart).
\<close>

definition BOXART_RATIO :: "int \<times> int" where
  "BOXART_RATIO = (13, 18)"

definition py_round_ratio :: "int \<Rightarrow> int \<Rightarrow> int" where
  "py_round_ratio n d =
     (let q = n div d; r = n mod d
      in if 2 * r < d then q
         else if 2 * r > d then q + 1
         else if even q then q else q + 1)"

text \<open>\<open>s.replace(old, new)\<close> for a non-empty \<open>old\<close>: leftmost matches, not overlapping.\<close>

function py_replace :: "string \<Rightarrow> string \<Rightarrow> string \<Rightarrow> string" where
  "py_replace old new [] = []"
| "py_replace old new (c # cs) =
     (if old \<noteq> [] \<and> take (length old) (c # cs) = old
      then new @ py_replace old new (drop (length old) (c # cs))
      else c # py_replace old new cs)"
  by pat_completeness auto
termination
  by (relation "measure (\<lambda>(old, new, s). length s)") auto

text \<open>
  The state of \<open>DiscordNotificationScript\<close> that the handlers read and write. The
  session object is shared with the script, so a handler stores the session back after
  each operation on it.
\<close>

record script =
  s_discord_start_msg :: "string option"
  s_discord_stop_msg :: "string option"
  s_username :: pyval
  s_boxart_height :: int
  s_hooks_list :: "string list"
  s_twitch :: "Twitch option"
  s_is_streaming :: bool
  s_loaded :: bool
  s_do_discord_start_notice :: bool
  s_do_discord_stop_notice :: bool

text \<open>\<open>DiscordNotificationScript.__init__\<close>.\<close>

definition script_init :: script where
  "script_init =
     \<lparr> s_discord_start_msg = None, s_discord_stop_msg = None, s_username = PNone,
       s_boxart_height = 72, s_hooks_list = [], s_twitch = None, s_is_streaming = False,
       s_loaded = False, s_do_discord_start_notice = False, s_do_discord_stop_notice = False \<rparr>"

text \<open>
  \<open>__authenticate_twitch\<close>: the \<open>try\<close> covers only the loading of the file; an
  exception of the constructor propagates and leaves the session as it was.
\<close>

definition authenticate_twitch :: "script \<Rightarrow> world \<Rightarrow> (error + unit) \<times> script \<times> world" where
  "authenticate_twitch s w =
     (case twitch_auth_file w of
        None \<Rightarrow> (Inr (), s, w)
      | Some auth \<Rightarrow>
          if auth = PNone then (Inr (), s, w)
          else (case Twitch_init auth None w of
                  (Inl err, w') \<Rightarrow> (Inl err, s, w')
                | (Inr t, w') \<Rightarrow>
                    if t_is_authenticated t then (Inr (), s\<lparr>s_twitch := Some t\<rparr>, w')
                    else (Inr (), s\<lparr>s_twitch := None\<rparr>, w')))"

definition attempt_authentication :: "script \<Rightarrow> bool \<Rightarrow> world \<Rightarrow> (error + unit) \<times> script \<times> world" where
  "attempt_authentication s twitch w =
     (if twitch \<and> twitch_auth_file w \<noteq> None
         \<and> (case s_twitch s of None \<Rightarrow> True | Some t \<Rightarrow> \<not> t_is_authenticated t)
      then authenticate_twitch s w
      else (Inr (), s, w))"

definition on_frontend_loaded :: "script \<Rightarrow> world \<Rightarrow> (error + unit) \<times> script \<times> world" where
  "on_frontend_loaded s w =
     (case attempt_authentication s True w of
        (Inl err, s', w') \<Rightarrow> (Inl err, s', w')
      | (Inr u, s', w') \<Rightarrow> (Inr (), s'\<lparr>s_loaded := True\<rparr>, w'))"

definition unauthenticate_twitch :: "script \<Rightarrow> world \<Rightarrow> (error + unit) \<times> script \<times> world" where
  "unauthenticate_twitch s w =
     (case s_twitch s of
        None \<Rightarrow> (Inr (), s, w)
      | Some t \<Rightarrow>
          if t_is_authenticated t
          then (case revoke_my_access t w of (r, t', w') \<Rightarrow> (r, s\<lparr>s_twitch := Some t'\<rparr>, w'))
          else (Inr (), s, w))"

subsection \<open>\<open>__get_relavent_channel_info\<close>\<close>

text \<open>The user id: the argument when it is truthy, else the \<open>id\<close> of the user record.\<close>

definition resolve_user_id ::
  "Twitch \<Rightarrow> pyval \<Rightarrow> pyval \<Rightarrow> world \<Rightarrow> (error + pyval) \<times> Twitch \<times> world" where
  "resolve_user_id t username user_id w =
     (if \<not> py_truthy user_id
      then (case get_user_info t username w of
              (Inl err, t', w') \<Rightarrow> (Inl err, t', w')
            | (Inr user_info, t', w') \<Rightarrow>
                if user_info = PNone then (Inl ValueError, t', w')
                else (py_get user_info ''id'' PNone, t', w'))
      else (Inr user_id, t, w))"

text \<open>The four subscripts of the channel record, in the order of the source.\<close>

definition channel_fields :: "pyval \<Rightarrow> error + pyval \<times> pyval \<times> pyval \<times> pyval" where
  "channel_fields channel_info =
     (case py_getitem channel_info ''game_name'' of
        Inl err \<Rightarrow> Inl err
      | Inr game_name \<Rightarrow>
     (case py_getitem channel_info ''game_id'' of
        Inl err \<Rightarrow> Inl err
      | Inr game_id \<Rightarrow>
     (case py_getitem channel_info ''title'' of
        Inl err \<Rightarrow> Inl err
      | Inr title \<Rightarrow>
     (case py_getitem channel_info ''broadcaster_name'' of
        Inl err \<Rightarrow> Inl err
      | Inr name \<Rightarrow> Inr (game_name, game_id, title, name)))))"

text \<open>
  \<^verbatim>\<open>game_info.get('box_art_url', '').replace(r'{width}x{height}', f'{width}x{height}')\<close>:
  only a string has \<open>replace\<close>.
\<close>

definition box_art :: "pyval \<Rightarrow> int \<Rightarrow> int \<Rightarrow> error + string" where
  "box_art game_info width height =
     (case py_get game_info ''box_art_url'' (PStr []) of
        Inl err \<Rightarrow> Inl err
      | Inr v \<Rightarrow>
          (case v of
             PStr u \<Rightarrow> Inr (py_replace ''{width}x{height}'' (int_dec width @ ''x'' @ int_dec height) u)
           | _ \<Rightarrow> Inl AttributeError))"

text \<open>
  The result is the tuple \<open>(name, title, game_name, game_id, boxart_url, width, height)\<close>.
  With no session at all, \<open>self._twitch.authenticated\<close> raises \<open>AttributeError\<close>.
\<close>

definition get_relavent_channel_info ::
  "script \<Rightarrow> pyval \<Rightarrow> world
     \<Rightarrow> (error + pyval \<times> pyval \<times> pyval \<times> pyval \<times> string \<times> int \<times> int) \<times> script \<times> world" where
  "get_relavent_channel_info s user_id w =
     (case s_twitch s of
        None \<Rightarrow> (Inl AttributeError, s, w)
      | Some t \<Rightarrow>
          if \<not> t_is_authenticated t then (Inl NotAuthenticatedError, s, w)
          else (case resolve_user_id t (s_username s) user_id w of
                  (Inl err, t1, w1) \<Rightarrow> (Inl err, s\<lparr>s_twitch := Some t1\<rparr>, w1)
                | (Inr uid, t1, w1) \<Rightarrow>
             (case get_channel_info t1 uid w1 of
                  (Inl err, t2, w2) \<Rightarrow> (Inl err, s\<lparr>s_twitch := Some t2\<rparr>, w2)
                | (Inr channel_info, t2, w2) \<Rightarrow>
                    if channel_info = PNone then (Inl ValueError, s\<lparr>s_twitch := Some t2\<rparr>, w2)
                    else
             (case channel_fields channel_info of
                  Inl err \<Rightarrow> (Inl err, s\<lparr>s_twitch := Some t2\<rparr>, w2)
                | Inr (game_name, game_id, title, name) \<Rightarrow>
             (case get_game_info t2 game_id w2 of
                  (Inl err, t3, w3) \<Rightarrow> (Inl err, s\<lparr>s_twitch := Some t3\<rparr>, w3)
                | (Inr found, t3, w3) \<Rightarrow>
                    (let game_info = py_or found (PDict []);
                         width = py_round_ratio (s_boxart_height s * fst BOXART_RATIO) (snd BOXART_RATIO);
                         height = s_boxart_height s
                     in case box_art game_info width height of
                          Inl err \<Rightarrow> (Inl err, s\<lparr>s_twitch := Some t3\<rparr>, w3)
                        | Inr boxart_url \<Rightarrow>
                            (Inr (name, title, game_name, game_id, boxart_url, width, height),
                             s\<lparr>s_twitch := Some t3\<rparr>, w3)))))))"

subsection \<open>The handlers\<close>

text \<open>The \<open>else\<close> branch of \<open>__on_start\<close>: the title, the stream url, and the delivery.\<close>

definition start_notice ::
  "script \<Rightarrow> pyval \<Rightarrow> pyval \<Rightarrow> pyval \<Rightarrow> string \<Rightarrow> int \<Rightarrow> int \<Rightarrow> world \<Rightarrow> (error + unit) \<times> world" where
  "start_notice s name title game_name boxart_url width height w =
     (case py_format name of
        Inl err \<Rightarrow> (Inl err, w)
      | Inr n \<Rightarrow>
     (case py_format game_name of
        Inl err \<Rightarrow> (Inl err, w)
      | Inr g \<Rightarrow>
     (case py_format title of
        Inl err \<Rightarrow> (Inl err, w)
      | Inr ti \<Rightarrow>
     (case py_format (s_username s) of
        Inl err \<Rightarrow> (Inl err, w)
      | Inr u \<Rightarrow>
          (let title' = n @ '' is streaming '' @ g @ '' on twitch.tv  | '' @ ti;
               stream_url = ''https://www.twitch.tv/'' @ u @ ''/''
           in if s_do_discord_start_notice s
              then execute_on_urls (map (\<lambda>url. (url, None, None)) (s_hooks_list s))
                     (s_discord_start_msg s)
                     (Some [set_timestamp
                              (DiscordEmbed_init
                                 [(''title'', PStr title'), (''url'', PStr stream_url),
                                  (''image'', PDict [(''url'', PStr boxart_url),
                                                     (''width'', PInt width),
                                                     (''height'', PInt height)])])
                              (Some []) (clock w)]) w
              else (Inr (), w))))))"

text \<open>
  \<open>__on_start\<close>: \<open>ValueError\<close> and \<open>NotAuthenticatedError\<close> of the lookup are caught and
  printed; any other exception, and any exception of the \<open>else\<close> branch, propagates. The
  \<open>finally\<close> clause sets the flag in every case.
\<close>

definition on_start :: "script \<Rightarrow> world \<Rightarrow> (error + unit) \<times> script \<times> world" where
  "on_start s w =
     (case get_relavent_channel_info s PNone w of
        (Inl err, s', w') \<Rightarrow>
          (if err = ValueError \<or> err = NotAuthenticatedError then Inr () else Inl err,
           s'\<lparr>s_is_streaming := True\<rparr>, w')
      | (Inr (name, title, game_name, game_id, boxart_url, width, height), s', w') \<Rightarrow>
          (case start_notice s' name title game_name boxart_url width height w' of
             (r, w'') \<Rightarrow> (r, s'\<lparr>s_is_streaming := True\<rparr>, w'')))"

text \<open>
  The part of \<open>__on_stop\<close> after the video lookup. \<open>video_info\<close> is the first component
  of the tuple the lookup returned.
\<close>

definition stop_notice :: "script \<Rightarrow> pyval \<Rightarrow> world \<Rightarrow> (error + unit) \<times> world" where
  "stop_notice s video_info w =
     (case (if video_info = PNone then Inr True
            else (case py_len video_info of Inl err \<Rightarrow> Inl err | Inr n \<Rightarrow> Inr (n = 0))) of
        Inl err \<Rightarrow> (Inl err, w)
      | Inr missing \<Rightarrow>
          if missing then (Inl ValueError, w)
          else (case py_getitem0 video_info of
                  Inl err \<Rightarrow> (Inl err, w)
                | Inr video \<Rightarrow>
                    (case py_get video ''url'' (PStr []) of
                       Inl err \<Rightarrow> (Inl err, w)
                     | Inr video_url \<Rightarrow>
                         if s_do_discord_stop_notice s
                         then (case py_get video ''title'' (PStr []) of
                                 Inl err \<Rightarrow> (Inl err, w)
                               | Inr video_title \<Rightarrow>
                                   execute_on_urls (map (\<lambda>url. (url, None, None)) (s_hooks_list s))
                                     (s_discord_stop_msg s)
                                     (Some [set_timestamp
                                              (DiscordEmbed_init
                                                 [(''title'', video_title), (''url'', video_url)])
                                              (Some []) (clock w)]) w)
                         else (Inr (), w))))"

text \<open>
  \<open>__on_stop\<close>. Nothing is caught: every exception leaves the handler, and the flag is
  cleared only by the last statement. Unpacking the result \<open>None\<close> of the video lookup
  raises \<open>TypeError\<close>.
\<close>

definition on_stop :: "script \<Rightarrow> world \<Rightarrow> (error + unit) \<times> script \<times> world" where
  "on_stop s w =
     (case s_twitch s of
        None \<Rightarrow> (Inl NotAuthenticatedError, s, w)
      | Some t \<Rightarrow>
          if \<not> t_is_authenticated t then (Inl NotAuthenticatedError, s, w)
          else (case get_user_info t (s_username s) w of
                  (Inl err, t1, w1) \<Rightarrow> (Inl err, s\<lparr>s_twitch := Some t1\<rparr>, w1)
                | (Inr user_info, t1, w1) \<Rightarrow>
                    if user_info = PNone then (Inl ValueError, s\<lparr>s_twitch := Some t1\<rparr>, w1)
                    else
             (case py_get user_info ''id'' PNone of
                  Inl err \<Rightarrow> (Inl err, s\<lparr>s_twitch := Some t1\<rparr>, w1)
                | Inr user_id \<Rightarrow>
             (case get_videos_info t1 PNone user_id PNone w1 of
                  (Inl err, t2, w2) \<Rightarrow> (Inl err, s\<lparr>s_twitch := Some t2\<rparr>, w2)
                | (Inr None, t2, w2) \<Rightarrow> (Inl TypeError, s\<lparr>s_twitch := Some t2\<rparr>, w2)
                | (Inr (Some (video_info, cursor)), t2, w2) \<Rightarrow>
                    (case stop_notice s video_info w2 of
                       (Inl err, w3) \<Rightarrow> (Inl err, s\<lparr>s_twitch := Some t2\<rparr>, w3)
                     | (Inr u, w3) \<Rightarrow>
                         (Inr (), s\<lparr>s_twitch := Some t2, s_is_streaming := False\<rparr>, w3))))))"

definition on_scene_changed :: "script \<Rightarrow> world \<Rightarrow> (error + unit) \<times> script \<times> world" where
  "on_scene_changed s w = (Inr (), s, w)"

subsection \<open>Event dispatch\<close>

datatype event =
    FINISHED_LOADING
  | EXIT
  | SCENE_CHANGED
  | STREAMING_STARTED
  | STREAMING_STOPPED
  | OTHER_EVENT nat

datatype callback =
    On_frontend_loaded
  | Unauthenticate_twitch
  | On_scene_changed
  | On_start
  | On_stop

fun run_callback :: "callback \<Rightarrow> script \<Rightarrow> world \<Rightarrow> (error + unit) \<times> script \<times> world" where
  "run_callback On_frontend_loaded s w = on_frontend_loaded s w"
| "run_callback Unauthenticate_twitch s w = unauthenticate_twitch s w"
| "run_callback On_scene_changed s w = on_scene_changed s w"
| "run_callback On_start s w = on_start s w"
| "run_callback On_stop s w = on_stop s w"

text \<open>
  \<open>OBSScript.frontend_event_callbacks\<close>, \<open>register_frontend_event_callback\<close> and the
  registrations of \<open>on_loaded\<close>.
\<close>

type_synonym registry = "event \<Rightarrow> callback list"

definition register_frontend_event_callback :: "registry \<Rightarrow> event \<Rightarrow> callback \<Rightarrow> registry" where
  "register_frontend_event_callback reg ev cb = reg(ev := reg ev @ [cb])"

definition on_loaded :: "registry \<Rightarrow> registry" where
  "on_loaded reg =
     register_frontend_event_callback
       (register_frontend_event_callback
         (register_frontend_event_callback
           (register_frontend_event_callback
             (register_frontend_event_callback reg FINISHED_LOADING On_frontend_loaded)
             EXIT Unauthenticate_twitch)
           SCENE_CHANGED On_scene_changed)
         STREAMING_STARTED On_start)
       STREAMING_STOPPED On_stop"

text \<open>
  \<open>handle_events\<close>: the callbacks of the event, in order, with no \<open>try\<close> around them.
  The result \<open>Inl err\<close> is the exception \<open>err\<close> leaving \<open>handle_events\<close> into the host.
\<close>

fun run_callbacks :: "callback list \<Rightarrow> script \<Rightarrow> world \<Rightarrow> (error + unit) \<times> script \<times> world" where
  "run_callbacks [] s w = (Inr (), s, w)"
| "run_callbacks (cb # cbs) s w =
     (case run_callback cb s w of
        (Inl err, s', w') \<Rightarrow> (Inl err, s', w')
      | (Inr u, s', w') \<Rightarrow> run_callbacks cbs s' w')"

definition handle_events :: "registry \<Rightarrow> event \<Rightarrow> script \<Rightarrow> world \<Rightarrow> (error + unit) \<times> script \<times> world" where
  "handle_events reg ev s w = run_callbacks (reg ev) s w"

section \<open>Properties of the embed\<close>

lemma is_empty_init_nil: "is_empty (DiscordEmbed_init []) = False"
  by (simp add: is_empty_def DiscordEmbed_init_def kw_get_def)

lemma embed_length_init_nil: "embed_length (DiscordEmbed_init []) = Inr 0"
  by (simp add: embed_length_def DiscordEmbed_init_def kw_get_def py_or_def)

text \<open>
  C4. The claim: \<open>is_embed_valid\<close> is false exactly when the length exceeds 6000 or the
  embed is empty, and an embed with no attribute set is empty and invalid. The code
  departs from it on the embed constructed with no attribute at all: its field list is
  the empty list, \<open>is_empty\<close> compares it with \<open>None\<close>, so the embed is not empty, and
  \<open>is_embed_valid\<close> returns true.
\<close>

theorem unset_embed_is_valid:
  "is_embed_valid (DiscordEmbed_init []) = Inr True \<and> is_empty (DiscordEmbed_init []) = False"
  by (simp add: is_embed_valid_def embed_length_init_nil is_empty_init_nil MaxLength_def)

lemma map_of_filter_snd:
  "distinct (map fst xs) \<Longrightarrow>
   map_of (filter (\<lambda>kv. P (snd kv)) xs) k =
     (case map_of xs k of None \<Rightarrow> None | Some v \<Rightarrow> if P v then Some v else None)"
proof (induction xs)
  case Nil
  then show ?case by simp
next
  case (Cons x xs)
  obtain a b where x: "x = (a, b)" by (cases x)
  from Cons.prems x have notin: "a \<notin> fst ` set xs" by simp
  then have none: "map_of xs a = None" by (simp add: map_of_eq_None_iff)
  from notin have nonef: "map_of (filter (\<lambda>kv. P (snd kv)) xs) a = None"
    by (auto simp: map_of_eq_None_iff)
  from Cons have IH: "map_of (filter (\<lambda>kv. P (snd kv)) xs) k =
     (case map_of xs k of None \<Rightarrow> None | Some v \<Rightarrow> if P v then Some v else None)" by simp
  show ?case using IH none nonef by (simp add: x)
qed

lemma distinct_attributes: "distinct (map fst (attributes e))"
  by (simp add: attributes_def)

lemma json_lookup:
  "map_of (json e) k =
     (case map_of (attributes e) k of
        None \<Rightarrow> None
      | Some v \<Rightarrow> if py_truthy v then Some v else None)"
  unfolding json_def by (rule map_of_filter_snd [OF distinct_attributes])

lemma json_keys:
  "fst ` set (json e) \<subseteq>
     {''title'', ''description'', ''url'', ''timestamp'', ''color'', ''footer'', ''image'',
      ''thumbnail'', ''video'', ''provider'', ''author'', ''fields''}"
  by (auto simp: json_def attributes_def)

text \<open>
  C6, as amended. The wire form holds exactly the attributes that are truthy, each under
  its own key with the stored value: under \<open>title\<close> the title when it is truthy (not
  \<open>None\<close>, not empty, not zero) and nothing otherwise, and so for \<open>description\<close>, \<open>url\<close>,
  \<open>timestamp\<close>, \<open>color\<close>, \<open>footer\<close>, \<open>image\<close>, \<open>thumbnail\<close>, \<open>video\<close>, \<open>provider\<close>,
  \<open>author\<close> and \<open>fields\<close>; the wire form has no other key. In particular an attribute
  that is \<open>None\<close> never appears.
\<close>

theorem json_holds_truthy_attributes:
  "map_of (json e) ''title'' = (if py_truthy (e_title e) then Some (e_title e) else None)
   \<and> map_of (json e) ''description''
       = (if py_truthy (e_description e) then Some (e_description e) else None)
   \<and> map_of (json e) ''url'' = (if py_truthy (e_url e) then Some (e_url e) else None)
   \<and> map_of (json e) ''timestamp''
       = (if py_truthy (e_timestamp e) then Some (e_timestamp e) else None)
   \<and> map_of (json e) ''color'' = (if py_truthy (e_color e) then Some (e_color e) else None)
   \<and> map_of (json e) ''footer'' = (if py_truthy (e_footer e) then Some (e_footer e) else None)
   \<and> map_of (json e) ''image'' = (if py_truthy (e_image e) then Some (e_image e) else None)
   \<and> map_of (json e) ''thumbnail''
       = (if py_truthy (e_thumbnail e) then Some (e_thumbnail e) else None)
   \<and> map_of (json e) ''video'' = (if py_truthy (e_video e) then Some (e_video e) else None)
   \<and> map_of (json e) ''provider''
       = (if py_truthy (e_provider e) then Some (e_provider e) else None)
   \<and> map_of (json e) ''author'' = (if py_truthy (e_author e) then Some (e_author e) else None)
   \<and> map_of (json e) ''fields'' = (if py_truthy (e_fields e) then Some (e_fields e) else None)
   \<and> fst ` set (json e) \<subseteq>
         {''title'', ''description'', ''url'', ''timestamp'', ''color'', ''footer'', ''image'',
          ''thumbnail'', ''video'', ''provider'', ''author'', ''fields''}"
proof -
  have keys: "fst ` set (json e) \<subseteq>
         {''title'', ''description'', ''url'', ''timestamp'', ''color'', ''footer'', ''image'',
          ''thumbnail'', ''video'', ''provider'', ''author'', ''fields''}"
    by (rule json_keys)
  have each: "map_of (json e) ''title'' = (if py_truthy (e_title e) then Some (e_title e) else None)"
    "map_of (json e) ''description''
       = (if py_truthy (e_description e) then Some (e_description e) else None)"
    "map_of (json e) ''url'' = (if py_truthy (e_url e) then Some (e_url e) else None)"
    "map_of (json e) ''timestamp''
       = (if py_truthy (e_timestamp e) then Some (e_timestamp e) else None)"
    "map_of (json e) ''color'' = (if py_truthy (e_color e) then Some (e_color e) else None)"
    "map_of (json e) ''footer'' = (if py_truthy (e_footer e) then Some (e_footer e) else None)"
    "map_of (json e) ''image'' = (if py_truthy (e_image e) then Some (e_image e) else None)"
    "map_of (json e) ''thumbnail''
       = (if py_truthy (e_thumbnail e) then Some (e_thumbnail e) else None)"
    "map_of (json e) ''video'' = (if py_truthy (e_video e) then Some (e_video e) else None)"
    "map_of (json e) ''provider''
       = (if py_truthy (e_provider e) then Some (e_provider e) else None)"
    "map_of (json e) ''author'' = (if py_truthy (e_author e) then Some (e_author e) else None)"
    "map_of (json e) ''fields'' = (if py_truthy (e_fields e) then Some (e_fields e) else None)"
    by (simp_all add: json_lookup attributes_def)
  from each keys show ?thesis by blast
qed

text \<open>
  C6 as stated fails: after \<open>set_color_rgb(0, 0, 0)\<close> the color attribute is the
  integer 0, which is not \<open>None\<close>, and the wire form has no \<open>color\<close> key.
\<close>

theorem black_color_not_serialized:
  "set_color_rgb (DiscordEmbed_init []) 0 0 0 = Inr (DiscordEmbed_init [(''color'', PInt 0)])
   \<and> e_color (DiscordEmbed_init [(''color'', PInt 0)]) = PInt 0
   \<and> map_of (json (DiscordEmbed_init [(''color'', PInt 0)])) ''color'' = None"
  by (simp add: set_color_rgb_def DiscordEmbed_init_def kw_get_def json_def attributes_def)

text \<open>
  C9. The claim: with a non-empty field list \<open>embed_length\<close> returns the sum of the
  lengths of the names and values. The code raises instead: the comprehension unpacks
  the name and the value themselves into \<open>(x, y)\<close>, which needs each of them to have
  exactly two characters. Here the name has three.
\<close>

theorem embed_length_raises_on_field:
  "embed_length (DiscordEmbed_init
     [(''fields'', PList [PDict [(''name'', PStr ''abc''), (''value'', PStr ''x'')]])])
   = Inl ValueError"
  by (simp add: embed_length_def DiscordEmbed_init_def kw_get_def py_or_def
      field_lengths_def unpacked_len_def py_unpack2_def)

text \<open>
  C10. The claim: \<open>set_thumbnail\<close> succeeds and stores the thumbnail. The code raises
  \<open>AttributeError\<close> for every embed and every argument, the empty url included.
\<close>

theorem set_thumbnail_raises:
  "set_thumbnail e url proxy_url width height = Inl AttributeError"
  by (simp add: set_thumbnail_def assign_thumbnail_property_def)

section \<open>Properties of the webhook\<close>

lemma answered_Suc:
  "answered (Suc n) w \<Longrightarrow>
   \<exists>r rs. replies w = Some r # rs \<and> answered n (w\<lparr>replies := rs, sent := sent w @ [rq]\<rparr>)"
  by (cases "replies w") (auto simp: answered_def)

lemma execute_all_answered:
  "has_valid_message h \<Longrightarrow> embeds_entry h = Inr entry \<Longrightarrow> answered (length urls) w \<Longrightarrow>
   execute_all h urls w =
     (Inr (), w\<lparr>replies := drop (length urls) (replies w),
               sent := sent w @ map (\<lambda>(url, username, avatar_url).
                  webhook_request url (opt_entry_str ''content'' (wh_content h) @ entry
                    @ opt_entry_str ''username'' username @ opt_entry_str ''avatar_url'' avatar_url))
                  urls\<rparr>)"
proof (induction urls arbitrary: w)
  case Nil
  then show ?case by simp
next
  case (Cons t urls)
  obtain url username avatar_url where t: "t = (url, username, avatar_url)" by (cases t)
  let ?rq = "webhook_request url (opt_entry_str ''content'' (wh_content h) @ entry
                    @ opt_entry_str ''username'' username @ opt_entry_str ''avatar_url'' avatar_url)"
  from Cons.prems(3) obtain r rs where rs: "replies w = Some r # rs"
    and a: "answered (length urls) (w\<lparr>replies := rs, sent := sent w @ [?rq]\<rparr>)"
    using answered_Suc [of "length urls" w ?rq] by auto
  have hd_ok: "list_all (\<lambda>kv. header_value_ok (snd kv)) (req_headers ?rq)"
    by (simp add: webhook_request_def)
  have one: "execute_one h url username avatar_url w = (Inr (), w\<lparr>replies := rs, sent := sent w @ [?rq]\<rparr>)"
    using Cons.prems(1,2) rs hd_ok by (simp add: execute_one_def json_payload_def requests_send_def)
  show ?case
    using Cons.IH [OF Cons.prems(1,2) a] one rs by (simp add: t)
qed

text \<open>The comprehension keeps the wire forms of the embeds whose check returns true.\<close>

lemma valid_embeds_json_filter:
  "\<forall>e \<in> set es. \<exists>ok. is_embed_valid e = Inr ok \<Longrightarrow>
   valid_embeds_json es
     = Inr (map (\<lambda>e. PDict (json e)) (filter (\<lambda>e. is_embed_valid e = Inr True) es))"
  by (induction es) auto

lemma answered_prefix:
  "replies w = map Some answers @ rest \<Longrightarrow> answered (length answers) w"
  by (simp add: answered_def list_all_iff)

lemma has_valid_message_iff:
  "has_valid_message h \<longleftrightarrow>
     \<not> ((wh_content h = None \<or> wh_content h = Some [])
        \<and> (wh_embeds h = None \<or> wh_embeds h = Some []))"
  by (auto simp: has_valid_message_def split: option.splits)

text \<open>
  C5, as amended. When the content is absent or empty and the embed list is absent or
  empty, \<open>execute\<close> raises \<open>ValueError\<close> before posting to any target: the world is as it
  was. The guard does not look at the validity of the embeds. When the content is
  non-empty or the embed list is non-empty, no embed's validity check raises, and the
  transport answers the POSTs, \<open>execute\<close> posts once per target, in order: a POST to the
  target's url with the header \<open>Content-Type: application/json\<close>, the parameter
  \<open>wait=true\<close> and a JSON body that holds the content when it is non-empty, under
  \<open>embeds\<close> the wire forms of exactly the embeds whose check returns true (an empty list
  when none does), and the target's username and avatar overrides when non-empty.
\<close>

theorem execute_guard_and_fanout:
  "((wh_content h = None \<or> wh_content h = Some [])
      \<and> (wh_embeds h = None \<or> wh_embeds h = Some [])
      \<longrightarrow> execute h w = (Inl ValueError, w))
   \<and> (\<not> ((wh_content h = None \<or> wh_content h = Some [])
          \<and> (wh_embeds h = None \<or> wh_embeds h = Some []))
      \<and> (\<forall>e \<in> set (case wh_embeds h of None \<Rightarrow> [] | Some es \<Rightarrow> es).
            \<exists>ok. is_embed_valid e = Inr ok)
      \<and> replies w = map Some answers @ rest \<and> length answers = length (wh_urls h)
      \<longrightarrow> execute h w =
          (Inr (),
           w\<lparr>replies := rest,
             sent := sent w @ map (\<lambda>(url, username, avatar_url).
               \<lparr> req_verb = POST, req_url = url,
                 req_headers = [(''Content-Type'', PStr ''application/json'')],
                 req_params = [(''wait'', PStr ''true'')],
                 req_json = Some (PDict
                   ((case wh_content h of
                       None \<Rightarrow> []
                     | Some c \<Rightarrow> if c \<noteq> [] then [(''content'', PStr c)] else [])
                    @ (case wh_embeds h of
                         None \<Rightarrow> []
                       | Some es \<Rightarrow>
                           if es = [] then []
                           else [(''embeds'',
                                  PList (map (\<lambda>e. PDict (json e))
                                          (filter (\<lambda>e. is_embed_valid e = Inr True) es)))])
                    @ (case username of
                         None \<Rightarrow> []
                       | Some u \<Rightarrow> if u \<noteq> [] then [(''username'', PStr u)] else [])
                    @ (case avatar_url of
                         None \<Rightarrow> []
                       | Some a \<Rightarrow> if a \<noteq> [] then [(''avatar_url'', PStr a)] else []))) \<rparr>)
               (wh_urls h)\<rparr>))"
proof (intro conjI impI)
  assume "(wh_content h = None \<or> wh_content h = Some [])
      \<and> (wh_embeds h = None \<or> wh_embeds h = Some [])"
  then show "execute h w = (Inl ValueError, w)"
    by (simp add: execute_def has_valid_message_iff)
next
  assume a: "\<not> ((wh_content h = None \<or> wh_content h = Some [])
          \<and> (wh_embeds h = None \<or> wh_embeds h = Some []))
      \<and> (\<forall>e \<in> set (case wh_embeds h of None \<Rightarrow> [] | Some es \<Rightarrow> es).
            \<exists>ok. is_embed_valid e = Inr ok)
      \<and> replies w = map Some answers @ rest \<and> length answers = length (wh_urls h)"
  let ?entry = "case wh_embeds h of
                  None \<Rightarrow> []
                | Some es \<Rightarrow>
                    if es = [] then []
                    else [(''embeds'',
                           PList (map (\<lambda>e. PDict (json e))
                                   (filter (\<lambda>e. is_embed_valid e = Inr True) es)))]"
  from a have valid: "has_valid_message h"
    by (simp add: has_valid_message_iff)
  from a have entry: "embeds_entry h = Inr ?entry"
    by (cases "wh_embeds h") (simp_all add: embeds_entry_def valid_embeds_json_filter)
  from a have ans: "answered (length (wh_urls h)) w"
    using answered_prefix [of w answers rest] by simp
  from a have dr: "drop (length (wh_urls h)) (replies w) = rest"
    by simp
  have "execute h w = execute_all h (wh_urls h) w"
    using valid by (simp add: execute_def)
  also have "\<dots> = (Inr (), w\<lparr>replies := drop (length (wh_urls h)) (replies w),
               sent := sent w @ map (\<lambda>(url, username, avatar_url).
                  webhook_request url (opt_entry_str ''content'' (wh_content h) @ ?entry
                    @ opt_entry_str ''username'' username @ opt_entry_str ''avatar_url'' avatar_url))
                  (wh_urls h)\<rparr>)"
    by (rule execute_all_answered [OF valid entry ans])
  finally show "execute h w =
          (Inr (),
           w\<lparr>replies := rest,
             sent := sent w @ map (\<lambda>(url, username, avatar_url).
               \<lparr> req_verb = POST, req_url = url,
                 req_headers = [(''Content-Type'', PStr ''application/json'')],
                 req_params = [(''wait'', PStr ''true'')],
                 req_json = Some (PDict
                   ((case wh_content h of
                       None \<Rightarrow> []
                     | Some c \<Rightarrow> if c \<noteq> [] then [(''content'', PStr c)] else [])
                    @ (case wh_embeds h of
                         None \<Rightarrow> []
                       | Some es \<Rightarrow>
                           if es = [] then []
                           else [(''embeds'',
                                  PList (map (\<lambda>e. PDict (json e))
                                          (filter (\<lambda>e. is_embed_valid e = Inr True) es)))])
                    @ (case username of
                         None \<Rightarrow> []
                       | Some u \<Rightarrow> if u \<noteq> [] then [(''username'', PStr u)] else [])
                    @ (case avatar_url of
                         None \<Rightarrow> []
                       | Some a \<Rightarrow> if a \<noteq> [] then [(''avatar_url'', PStr a)] else []))) \<rparr>)
               (wh_urls h)\<rparr>)"
    unfolding dr by (simp add: webhook_request_def opt_entry_str_def)
qed

theorem execute_guard_and_fanout_witness:
  "execute
     \<lparr> wh_urls = [(''https://discord.test/hook'', None, None)], wh_content = Some [],
       wh_embeds = Some [] \<rparr>
     \<lparr> replies = [], sent = [], clock = [], twitch_auth_file = None \<rparr>
   = (Inl ValueError, \<lparr> replies = [], sent = [], clock = [], twitch_auth_file = None \<rparr>)
   \<and> execute
     \<lparr> wh_urls = [(''https://discord.test/a'', Some ''bot'', None),
                  (''https://discord.test/b'', None, None)],
       wh_content = None,
       wh_embeds = Some [DiscordEmbed_init [(''title'', PStr ''live'')],
                         DiscordEmbed_init [(''fields'', PNone)]] \<rparr>
     \<lparr> replies = [Some \<lparr> status_code = 500, resp_headers = [], resp_json = None \<rparr>,
                  Some \<lparr> status_code = 200, resp_headers = [], resp_json = None \<rparr>],
       sent = [], clock = [], twitch_auth_file = None \<rparr>
   = (Inr (),
      \<lparr> replies = [],
        sent = [\<lparr> req_verb = POST, req_url = ''https://discord.test/a'',
                  req_headers = [(''Content-Type'', PStr ''application/json'')],
                  req_params = [(''wait'', PStr ''true'')],
                  req_json = Some (PDict [(''embeds'', PList [PDict [(''title'', PStr ''live'')]]),
                                          (''username'', PStr ''bot'')]) \<rparr>,
                \<lparr> req_verb = POST, req_url = ''https://discord.test/b'',
                  req_headers = [(''Content-Type'', PStr ''application/json'')],
                  req_params = [(''wait'', PStr ''true'')],
                  req_json = Some (PDict [(''embeds'', PList [PDict [(''title'', PStr ''live'')]])]) \<rparr>],
        clock = [], twitch_auth_file = None \<rparr>)"
proof -
  let ?h0 = "\<lparr> wh_urls = [(''https://discord.test/hook'', None, None)], wh_content = Some [],
       wh_embeds = Some [] \<rparr>"
  let ?w0 = "\<lparr> replies = [], sent = [], clock = [], twitch_auth_file = None \<rparr>"
  let ?good = "DiscordEmbed_init [(''title'', PStr ''live'')]"
  let ?bad = "DiscordEmbed_init [(''fields'', PNone)]"
  let ?h1 = "\<lparr> wh_urls = [(''https://discord.test/a'', Some ''bot'', None),
                  (''https://discord.test/b'', None, None)],
       wh_content = None, wh_embeds = Some [?good, ?bad] \<rparr>"
  let ?r1 = "\<lparr> status_code = 500, resp_headers = [], resp_json = None \<rparr>"
  let ?r2 = "\<lparr> status_code = 200, resp_headers = [], resp_json = None \<rparr>"
  let ?w1 = "\<lparr> replies = [Some ?r1, Some ?r2], sent = [], clock = [], twitch_auth_file = None \<rparr>"
  have good: "is_embed_valid ?good = Inr True"
    by (simp add: is_embed_valid_def embed_length_def is_empty_def DiscordEmbed_init_def
        kw_get_def py_or_def MaxLength_def)
  have bad: "is_embed_valid ?bad = Inr False"
    by (simp add: is_embed_valid_def embed_length_def is_empty_def DiscordEmbed_init_def
        kw_get_def py_or_def MaxLength_def)
  have wire: "json ?good = [(''title'', PStr ''live'')]"
    by (simp add: json_def attributes_def DiscordEmbed_init_def kw_get_def)
  have g0: "(wh_content ?h0 = None \<or> wh_content ?h0 = Some [])
      \<and> (wh_embeds ?h0 = None \<or> wh_embeds ?h0 = Some [])"
    by simp
  have g1: "\<not> ((wh_content ?h1 = None \<or> wh_content ?h1 = Some [])
          \<and> (wh_embeds ?h1 = None \<or> wh_embeds ?h1 = Some []))
      \<and> (\<forall>e \<in> set (case wh_embeds ?h1 of None \<Rightarrow> [] | Some es \<Rightarrow> es).
            \<exists>ok. is_embed_valid e = Inr ok)
      \<and> replies ?w1 = map Some [?r1, ?r2] @ [] \<and> length [?r1, ?r2] = length (wh_urls ?h1)"
    using good bad by auto
  have e0: "execute ?h0 ?w0 = (Inl ValueError, ?w0)"
    using g0 execute_guard_and_fanout [where h = ?h0 and w = ?w0] by blast
  have e1: "execute ?h1 ?w1 =
          (Inr (),
           ?w1\<lparr>replies := [],
             sent := sent ?w1 @ map (\<lambda>(url, username, avatar_url).
               \<lparr> req_verb = POST, req_url = url,
                 req_headers = [(''Content-Type'', PStr ''application/json'')],
                 req_params = [(''wait'', PStr ''true'')],
                 req_json = Some (PDict
                   ((case wh_content ?h1 of
                       None \<Rightarrow> []
                     | Some c \<Rightarrow> if c \<noteq> [] then [(''content'', PStr c)] else [])
                    @ (case wh_embeds ?h1 of
                         None \<Rightarrow> []
                       | Some es \<Rightarrow>
                           if es = [] then []
                           else [(''embeds'',
                                  PList (map (\<lambda>e. PDict (json e))
                                          (filter (\<lambda>e. is_embed_valid e = Inr True) es)))])
                    @ (case username of
                         None \<Rightarrow> []
                       | Some u \<Rightarrow> if u \<noteq> [] then [(''username'', PStr u)] else [])
                    @ (case avatar_url of
                         None \<Rightarrow> []
                       | Some a \<Rightarrow> if a \<noteq> [] then [(''avatar_url'', PStr a)] else []))) \<rparr>)
               (wh_urls ?h1)\<rparr>)"
    using g1 execute_guard_and_fanout [where h = ?h1 and w = ?w1 and answers = "[?r1, ?r2]" and rest = "[]"]
    by blast
  show ?thesis
    using e0 e1 good bad wire by simp
qed

text \<open>
  C5 as stated fails: a webhook with no content whose only embed is invalid (all twelve
  attributes \<open>None\<close>) passes the guard, and \<open>execute\<close> posts a payload with an empty
  embed list to the target.
\<close>

theorem invalid_embed_only_is_posted:
  "is_embed_valid (DiscordEmbed_init [(''fields'', PNone)]) = Inr False
   \<and> execute
       \<lparr> wh_urls = [(''https://discord.test/hook'', None, None)], wh_content = None,
         wh_embeds = Some [DiscordEmbed_init [(''fields'', PNone)]] \<rparr>
       \<lparr> replies = [Some \<lparr> status_code = 200, resp_headers = [], resp_json = None \<rparr>],
         sent = [], clock = [], twitch_auth_file = None \<rparr>
     = (Inr (),
        \<lparr> replies = [],
          sent = [\<lparr> req_verb = POST, req_url = ''https://discord.test/hook'',
                    req_headers = [(''Content-Type'', PStr ''application/json'')],
                    req_params = [(''wait'', PStr ''true'')],
                    req_json = Some (PDict [(''embeds'', PList [])]) \<rparr>],
          clock = [], twitch_auth_file = None \<rparr>)"
  by (simp add: execute_def has_valid_message_def execute_one_def json_payload_def embeds_entry_def
      is_embed_valid_def embed_length_def is_empty_def DiscordEmbed_init_def kw_get_def py_or_def
      requests_send_def webhook_request_def opt_entry_str_def MaxLength_def)

section \<open>Properties of the platform client\<close>

text \<open>
  C1. The claim: with an access token, a validation answered with HTTP 200 yields the
  client id and an authenticated session. The code compares the response object, not its
  status, with 200, so \<open>validate_token\<close> returns \<open>None\<close> for every response: here the
  endpoint answers 200 with a client id, and the session is constructed
  unauthenticated, with no client id.
\<close>

theorem valid_token_not_authenticated:
  "Twitch_init (PDict [(''access_token'', PStr ''tok'')]) None
     \<lparr> replies = [Some \<lparr> status_code = 200, resp_headers = [],
                          resp_json = Some (PDict [(''client_id'', PStr ''abc'')]) \<rparr>],
       sent = [], clock = [], twitch_auth_file = None \<rparr>
   = (Inr \<lparr> t_client_id = PNone, t_client_secret = PNone, t_access_token = PStr ''tok'',
            t_refresh_token = PNone, t_is_authenticated = False, t_scopes = None \<rparr>,
      \<lparr> replies = [],
        sent = [\<lparr> req_verb = GET, req_url = ValidateToken,
                  req_headers = [(''Authorization'', PStr ''OAuth tok'')],
                  req_params = [], req_json = None \<rparr>],
        clock = [], twitch_auth_file = None \<rparr>)"
  by (simp add: Twitch_init_def validate_token_def requests_send_def response_eq_int_def)

text \<open>The same on every input: the access-token path never authenticates.\<close>

lemma validate_token_None:
  "validate_token a w = (Inr cid, w') \<Longrightarrow> cid = PNone"
  by (auto simp: validate_token_def response_eq_int_def split: if_splits sum.splits prod.splits)

lemma access_token_never_authenticates:
  "py_get auth_info ''access_token'' PNone = Inr a \<Longrightarrow> a \<noteq> PNone \<Longrightarrow>
   Twitch_init auth_info scopes w = (Inr t, w') \<Longrightarrow> \<not> t_is_authenticated t"
  by (auto simp: Twitch_init_def Let_def dest: validate_token_None
      split: if_splits sum.splits prod.splits)

text \<open>An access token that is present but empty makes construction raise.\<close>

lemma empty_access_token_raises:
  "Twitch_init (PDict [(''access_token'', PStr [])]) scopes w = (Inl ValueError, w)"
  by (simp add: Twitch_init_def validate_token_def)

text \<open>
  C8, as amended. When the client id and the access token are both set and non-empty,
  \<open>revoke_my_access\<close> posts one revoke request carrying them and, whenever the POST
  returns a response (whatever its status), marks the session unauthenticated. When
  either is \<open>None\<close> or empty it raises \<open>ValueError\<close> before any request, and the flag
  stays as it was.
\<close>

theorem revoke_my_access_guarded:
  "(py_truthy (t_client_id t) \<and> py_truthy (t_access_token t) \<and> replies w = Some r # rs \<longrightarrow>
      revoke_my_access t w =
        (Inr (), t\<lparr>t_is_authenticated := False\<rparr>,
         w\<lparr>replies := rs,
           sent := sent w @ [\<lparr> req_verb = POST, req_url = RevokeToken, req_headers = [],
                               req_params = [(''client_id'', t_client_id t),
                                             (''token'', t_access_token t)],
                               req_json = None \<rparr>]\<rparr>))
   \<and> (\<not> (py_truthy (t_client_id t) \<and> py_truthy (t_access_token t)) \<longrightarrow>
      revoke_my_access t w = (Inl ValueError, t, w))"
  by (simp add: revoke_my_access_def revoke_access_def requests_send_def)

theorem revoke_my_access_guarded_witness:
  "revoke_my_access
     \<lparr> t_client_id = PStr ''cid'', t_client_secret = PNone, t_access_token = PStr ''tok'',
       t_refresh_token = PNone, t_is_authenticated = True, t_scopes = None \<rparr>
     \<lparr> replies = [Some \<lparr> status_code = 400, resp_headers = [], resp_json = None \<rparr>],
       sent = [], clock = [], twitch_auth_file = None \<rparr>
   = (Inr (),
      \<lparr> t_client_id = PStr ''cid'', t_client_secret = PNone, t_access_token = PStr ''tok'',
        t_refresh_token = PNone, t_is_authenticated = False, t_scopes = None \<rparr>,
      \<lparr> replies = [],
        sent = [\<lparr> req_verb = POST, req_url = RevokeToken, req_headers = [],
                  req_params = [(''client_id'', PStr ''cid''), (''token'', PStr ''tok'')],
                  req_json = None \<rparr>],
        clock = [], twitch_auth_file = None \<rparr>)
   \<and> revoke_my_access
     \<lparr> t_client_id = PNone, t_client_secret = PNone, t_access_token = PStr ''tok'',
       t_refresh_token = PNone, t_is_authenticated = False, t_scopes = None \<rparr>
     \<lparr> replies = [], sent = [], clock = [], twitch_auth_file = None \<rparr>
   = (Inl ValueError,
      \<lparr> t_client_id = PNone, t_client_secret = PNone, t_access_token = PStr ''tok'',
        t_refresh_token = PNone, t_is_authenticated = False, t_scopes = None \<rparr>,
      \<lparr> replies = [], sent = [], clock = [], twitch_auth_file = None \<rparr>)"
proof -
  let ?t1 = "\<lparr> t_client_id = PStr ''cid'', t_client_secret = PNone, t_access_token = PStr ''tok'',
       t_refresh_token = PNone, t_is_authenticated = True, t_scopes = None \<rparr>"
  let ?r = "\<lparr> status_code = 400, resp_headers = [], resp_json = None \<rparr>"
  let ?w1 = "\<lparr> replies = [Some ?r], sent = [], clock = [], twitch_auth_file = None \<rparr>"
  let ?t2 = "\<lparr> t_client_id = PNone, t_client_secret = PNone, t_access_token = PStr ''tok'',
       t_refresh_token = PNone, t_is_authenticated = False, t_scopes = None \<rparr>"
  let ?w2 = "\<lparr> replies = [], sent = [], clock = [], twitch_auth_file = None \<rparr>"
  have h1: "py_truthy (t_client_id ?t1) \<and> py_truthy (t_access_token ?t1) \<and> replies ?w1 = Some ?r # []"
    by simp
  have h2: "\<not> (py_truthy (t_client_id ?t2) \<and> py_truthy (t_access_token ?t2))"
    by simp
  show ?thesis
    using h1 h2 revoke_my_access_guarded [of ?t1 ?w1 ?r "[]"] revoke_my_access_guarded [of ?t2 ?w2]
    by simp
qed

text \<open>
  C8 as stated fails. The client-credentials exchange answered with 200 and a body
  without tokens constructs an authenticated session that holds no access token; on it
  \<open>revoke_my_access\<close> raises \<open>ValueError\<close>, posts nothing, and the session is still
  marked authenticated.
\<close>

theorem revoke_leaves_session_authenticated:
  "Twitch_init (PDict [(''client_id'', PStr ''cid''), (''client_secret'', PStr ''secret'')]) None
     \<lparr> replies = [Some \<lparr> status_code = 200, resp_headers = [], resp_json = Some (PDict []) \<rparr>],
       sent = [], clock = [], twitch_auth_file = None \<rparr>
   = (Inr \<lparr> t_client_id = PStr ''cid'', t_client_secret = PStr ''secret'', t_access_token = PNone,
            t_refresh_token = PNone, t_is_authenticated = True, t_scopes = None \<rparr>,
      \<lparr> replies = [],
        sent = [\<lparr> req_verb = POST, req_url = AuthToken, req_headers = [],
                  req_params = [(''client_id'', PStr ''cid''), (''client_secret'', PStr ''secret''),
                                (''grant_type'', PStr ''client_credentials'')],
                  req_json = None \<rparr>],
        clock = [], twitch_auth_file = None \<rparr>)
   \<and> revoke_my_access
       \<lparr> t_client_id = PStr ''cid'', t_client_secret = PStr ''secret'', t_access_token = PNone,
         t_refresh_token = PNone, t_is_authenticated = True, t_scopes = None \<rparr>
       \<lparr> replies = [Some \<lparr> status_code = 200, resp_headers = [], resp_json = None \<rparr>],
         sent = [], clock = [], twitch_auth_file = None \<rparr>
     = (Inl ValueError,
        \<lparr> t_client_id = PStr ''cid'', t_client_secret = PStr ''secret'', t_access_token = PNone,
          t_refresh_token = PNone, t_is_authenticated = True, t_scopes = None \<rparr>,
        \<lparr> replies = [Some \<lparr> status_code = 200, resp_headers = [], resp_json = None \<rparr>],
          sent = [], clock = [], twitch_auth_file = None \<rparr>)"
  by (simp add: Twitch_init_def oauth_def requests_send_def response_json_def
      revoke_my_access_def revoke_access_def)

subsection \<open>The metadata operations and the authenticated flag\<close>

lemma oauth_flag:
  "oauth (t\<lparr>t_is_authenticated := b\<rparr>) w = with_flag b (oauth t w)"
  by (simp add: oauth_def with_flag_def Let_def split: sum.splits prod.splits)

lemma validate_response_flag:
  "validate_response (t\<lparr>t_is_authenticated := b\<rparr>) res w = with_flag b (validate_response t res w)"
  by (simp add: validate_response_def oauth_flag with_flag_def split: sum.splits prod.splits option.splits)

lemma attempt_request_get_flag:
  "attempt_request_get (t\<lparr>t_is_authenticated := b\<rparr>) url params w
     = with_flag b (attempt_request_get t url params w)"
  by (simp add: attempt_request_get_def api_request_def validate_response_flag with_flag_def
      split: sum.splits prod.splits)

lemma get_users_info_flag:
  "get_users_info (t\<lparr>t_is_authenticated := b\<rparr>) ids w = with_flag b (get_users_info t ids w)"
  by (simp add: get_users_info_def attempt_request_get_flag with_flag_def
      split: sum.splits prod.splits option.splits)

lemma get_user_info_flag:
  "get_user_info (t\<lparr>t_is_authenticated := b\<rparr>) user w = with_flag b (get_user_info t user w)"
  by (simp add: get_user_info_def get_users_info_flag with_flag_def
      split: sum.splits prod.splits)

lemma get_channel_info_flag:
  "get_channel_info (t\<lparr>t_is_authenticated := b\<rparr>) user_id w = with_flag b (get_channel_info t user_id w)"
  by (simp add: get_channel_info_def attempt_request_get_flag with_flag_def
      split: sum.splits prod.splits option.splits)

lemma get_videos_info_flag:
  "get_videos_info (t\<lparr>t_is_authenticated := b\<rparr>) video_ids user_id game_id w
     = with_flag b (get_videos_info t video_ids user_id game_id w)"
  by (simp add: get_videos_info_def attempt_request_get_flag with_flag_def
      split: sum.splits prod.splits option.splits)

lemma get_games_info_flag:
  "get_games_info (t\<lparr>t_is_authenticated := b\<rparr>) games w = with_flag b (get_games_info t games w)"
  by (simp add: get_games_info_def attempt_request_get_flag with_flag_def
      split: sum.splits prod.splits option.splits)

lemma get_game_info_flag:
  "get_game_info (t\<lparr>t_is_authenticated := b\<rparr>) game w = with_flag b (get_game_info t game w)"
  by (simp add: get_game_info_def get_games_info_flag with_flag_def
      split: sum.splits prod.splits)


lemma py_get_na: "py_get v k d \<noteq> Inl NotAuthenticatedError"
  by (cases v) (auto split: option.splits)

lemma py_len_na: "py_len v \<noteq> Inl NotAuthenticatedError"
  by (cases v) auto

lemma py_getitem0_na: "py_getitem0 v \<noteq> Inl NotAuthenticatedError"
  by (cases v) (auto split: list.splits)

lemma py_iter_na: "py_iter v \<noteq> Inl NotAuthenticatedError"
  by (cases v) auto

lemma py_isdecimal_na: "py_isdecimal v \<noteq> Inl NotAuthenticatedError"
  by (cases v) auto

lemma py_format_na: "py_format v \<noteq> Inl NotAuthenticatedError"
  by (cases v) auto

lemma response_json_na: "response_json r \<noteq> Inl NotAuthenticatedError"
  by (simp add: response_json_def split: option.splits)

lemmas py_na = py_get_na py_len_na py_getitem0_na py_iter_na py_isdecimal_na py_format_na
  response_json_na

lemma id_payload_na: "id_payload other xs \<noteq> Inl NotAuthenticatedError"
  by (induction xs) (auto simp: py_isdecimal_na split: sum.splits)

lemma requests_send_na: "fst (requests_send rq w) \<noteq> Inl NotAuthenticatedError"
  by (simp add: requests_send_def split: list.splits option.splits)

lemma requests_send_na': "requests_send rq w = (Inl err, w') \<Longrightarrow> err \<noteq> NotAuthenticatedError"
  using requests_send_na [of rq w] by auto

lemma oauth_na: "fst (oauth t w) \<noteq> Inl NotAuthenticatedError"
  using py_na by (auto simp: oauth_def Let_def dest: requests_send_na' split: sum.splits prod.splits if_splits)

lemma oauth_na': "oauth t w = (Inl err, t', w') \<Longrightarrow> err \<noteq> NotAuthenticatedError"
  using oauth_na [of t w] by auto

lemma validate_response_na: "fst (validate_response t res w) \<noteq> Inl NotAuthenticatedError"
  by (auto simp: validate_response_def dest: oauth_na' split: sum.splits prod.splits option.splits if_splits)

lemma validate_response_na':
  "validate_response t res w = (Inl err, t', w') \<Longrightarrow> err \<noteq> NotAuthenticatedError"
  using validate_response_na [of t res w] by auto

lemma attempt_request_get_na: "fst (attempt_request_get t url params w) \<noteq> Inl NotAuthenticatedError"
  using py_format_na
  by (auto simp: attempt_request_get_def dest: requests_send_na' validate_response_na'
      split: sum.splits prod.splits)

lemma attempt_request_get_na':
  "attempt_request_get t url params w = (Inl err, t', w') \<Longrightarrow> err \<noteq> NotAuthenticatedError"
  using attempt_request_get_na [of t url params w] by auto

lemma users_result_na: "users_result res \<noteq> Inl NotAuthenticatedError"
  using py_na by (auto simp: users_result_def split: sum.splits)

lemma single_record_na: "single_record v \<noteq> Inl NotAuthenticatedError"
  using py_na by (auto simp: single_record_def split: sum.splits)

lemma first_record_na: "first_record v \<noteq> Inl NotAuthenticatedError"
  using py_na by (auto simp: first_record_def split: sum.splits)

lemma channel_result_na: "channel_result res \<noteq> Inl NotAuthenticatedError"
  using py_na first_record_na by (auto simp: channel_result_def split: sum.splits)

lemma videos_payload_na: "videos_payload a b c \<noteq> Inl NotAuthenticatedError"
  using py_na by (auto simp: videos_payload_def split: sum.splits if_splits)

lemma videos_result_na: "videos_result res \<noteq> Inl NotAuthenticatedError"
  using py_na by (auto simp: videos_result_def split: sum.splits if_splits)

lemma games_result_na: "games_result res \<noteq> Inl NotAuthenticatedError"
  using py_na by (auto simp: games_result_def split: sum.splits if_splits)

lemma get_users_info_na: "fst (get_users_info t ids w) \<noteq> Inl NotAuthenticatedError"
  using id_payload_na users_result_na
  by (auto simp: get_users_info_def dest: attempt_request_get_na'
      split: sum.splits prod.splits option.splits)

lemma get_users_info_na':
  "get_users_info t ids w = (Inl err, t', w') \<Longrightarrow> err \<noteq> NotAuthenticatedError"
  using get_users_info_na [of t ids w] by auto

lemma get_user_info_na: "fst (get_user_info t user w) \<noteq> Inl NotAuthenticatedError"
  using single_record_na
  by (auto simp: get_user_info_def dest: get_users_info_na' split: sum.splits prod.splits)

lemma get_channel_info_na: "fst (get_channel_info t user_id w) \<noteq> Inl NotAuthenticatedError"
  using channel_result_na
  by (auto simp: get_channel_info_def dest: attempt_request_get_na'
      split: sum.splits prod.splits option.splits)

lemma get_videos_info_na:
  "fst (get_videos_info t video_ids user_id game_id w) \<noteq> Inl NotAuthenticatedError"
  using videos_payload_na videos_result_na
  by (auto simp: get_videos_info_def dest: attempt_request_get_na'
      split: sum.splits prod.splits option.splits)

lemma get_games_info_na: "fst (get_games_info t games w) \<noteq> Inl NotAuthenticatedError"
  using id_payload_na games_result_na
  by (auto simp: get_games_info_def dest: attempt_request_get_na'
      split: sum.splits prod.splits option.splits)

lemma get_games_info_na':
  "get_games_info t games w = (Inl err, t', w') \<Longrightarrow> err \<noteq> NotAuthenticatedError"
  using get_games_info_na [of t games w] by auto

lemma get_game_info_na: "fst (get_game_info t game w) \<noteq> Inl NotAuthenticatedError"
  using first_record_na
  by (auto simp: get_game_info_def dest: get_games_info_na' split: sum.splits prod.splits)

text \<open>
  C2, as amended. No metadata operation reads the authenticated flag: with the flag set
  to any value each of the six operations issues the same requests and ends with the
  same result or error as with the flag as it was, and none of them ever fails with
  \<open>NotAuthenticatedError\<close>. (That error is raised by the orchestrator's handlers, before
  they call the operations.)
\<close>

theorem operations_ignore_authenticated:
  "get_users_info (t\<lparr>t_is_authenticated := b\<rparr>) ids w = with_flag b (get_users_info t ids w)
   \<and> get_user_info (t\<lparr>t_is_authenticated := b\<rparr>) user w = with_flag b (get_user_info t user w)
   \<and> get_channel_info (t\<lparr>t_is_authenticated := b\<rparr>) user_id w
       = with_flag b (get_channel_info t user_id w)
   \<and> get_videos_info (t\<lparr>t_is_authenticated := b\<rparr>) video_ids user_id game_id w
       = with_flag b (get_videos_info t video_ids user_id game_id w)
   \<and> get_games_info (t\<lparr>t_is_authenticated := b\<rparr>) games w = with_flag b (get_games_info t games w)
   \<and> get_game_info (t\<lparr>t_is_authenticated := b\<rparr>) game w = with_flag b (get_game_info t game w)
   \<and> fst (get_users_info t ids w) \<noteq> Inl NotAuthenticatedError
   \<and> fst (get_user_info t user w) \<noteq> Inl NotAuthenticatedError
   \<and> fst (get_channel_info t user_id w) \<noteq> Inl NotAuthenticatedError
   \<and> fst (get_videos_info t video_ids user_id game_id w) \<noteq> Inl NotAuthenticatedError
   \<and> fst (get_games_info t games w) \<noteq> Inl NotAuthenticatedError
   \<and> fst (get_game_info t game w) \<noteq> Inl NotAuthenticatedError"
  by (simp only: get_users_info_flag get_user_info_flag get_channel_info_flag
      get_videos_info_flag get_games_info_flag get_game_info_flag
      get_users_info_na get_user_info_na get_channel_info_na get_videos_info_na
      get_games_info_na get_game_info_na simp_thms)

text \<open>
  C2 as stated fails: on a session with \<open>authenticated == false\<close> the user lookup
  issues its request and returns the records of the response.
\<close>

theorem unauthenticated_lookup_returns_data:
  "get_users_info
     \<lparr> t_client_id = PStr ''cid'', t_client_secret = PNone, t_access_token = PStr ''tok'',
       t_refresh_token = PNone, t_is_authenticated = False, t_scopes = None \<rparr>
     [PStr ''alice'']
     \<lparr> replies = [Some \<lparr> status_code = 200, resp_headers = [],
                          resp_json = Some (PDict [(''data'', PList [PDict [(''id'', PStr ''1'')]])]) \<rparr>],
       sent = [], clock = [], twitch_auth_file = None \<rparr>
   = (Inr (PList [PDict [(''id'', PStr ''1'')]]),
      \<lparr> t_client_id = PStr ''cid'', t_client_secret = PNone, t_access_token = PStr ''tok'',
        t_refresh_token = PNone, t_is_authenticated = False, t_scopes = None \<rparr>,
      \<lparr> replies = [],
        sent = [\<lparr> req_verb = GET, req_url = Users,
                  req_headers = [(''Client-ID'', PStr ''cid''), (''Authorization'', PStr ''Bearer tok'')],
                  req_params = [(''login'', PStr ''alice'')], req_json = None \<rparr>],
        clock = [], twitch_auth_file = None \<rparr>)"
  by (simp add: get_users_info_def UserRequests_def is_digit_def attempt_request_get_def
      api_request_def requests_send_def validate_response_def users_result_def response_json_def)

section \<open>Properties of the orchestrator\<close>

lemma on_stop_unauthenticated:
  "(case s_twitch s of None \<Rightarrow> True | Some t \<Rightarrow> \<not> t_is_authenticated t) \<Longrightarrow>
   on_stop s w = (Inl NotAuthenticatedError, s, w)"
  by (simp add: on_stop_def split: option.splits)

text \<open>The start handler, in the same situation, catches the error and sets its flag.\<close>

lemma on_start_unauthenticated_caught:
  "s_twitch s = Some t \<Longrightarrow> \<not> t_is_authenticated t \<Longrightarrow>
   on_start s w = (Inr (), s\<lparr>s_is_streaming := True\<rparr>, w)"
  by (simp add: on_start_def get_relavent_channel_info_def)

lemma on_loaded_stop_callbacks: "on_loaded (\<lambda>ev. []) STREAMING_STOPPED = [On_stop]"
  by (simp add: on_loaded_def register_frontend_event_callback_def)

text \<open>
  C3. The claim: the stop event, delivered while the platform client is absent or
  unauthenticated, is logged, clears the streaming flag, and lets no exception out of
  the dispatch. In the code \<open>__on_stop\<close> raises \<open>NotAuthenticatedError\<close> as its first
  statement, \<open>handle_events\<close> catches nothing, and the flag keeps its value: with the
  callbacks registered by \<open>on_loaded\<close>, a streaming script and no session (or an
  unauthenticated one), the dispatch ends with the exception, the state as it was (the
  flag still true) and nothing sent.
\<close>

theorem stop_while_unauthenticated_raises:
  "handle_events (on_loaded (\<lambda>ev. [])) STREAMING_STOPPED
     (script_init\<lparr>s_is_streaming := True\<rparr>) w
   = (Inl NotAuthenticatedError, script_init\<lparr>s_is_streaming := True\<rparr>, w)
   \<and> handle_events (on_loaded (\<lambda>ev. [])) STREAMING_STOPPED
     (script_init\<lparr>s_twitch := Some (t\<lparr>t_is_authenticated := False\<rparr>), s_is_streaming := True\<rparr>) w
   = (Inl NotAuthenticatedError,
      script_init\<lparr>s_twitch := Some (t\<lparr>t_is_authenticated := False\<rparr>), s_is_streaming := True\<rparr>, w)
   \<and> s_is_streaming (script_init\<lparr>s_is_streaming := True\<rparr>) = True"
  by (simp add: handle_events_def on_loaded_stop_callbacks on_stop_unauthenticated script_init_def)

subsection \<open>The start scenario\<close>

lemma attempt_request_get_ok:
  "py_format (t_access_token t) = Inr tok \<Longrightarrow> header_value_ok (t_client_id t) \<Longrightarrow>
   replies w = Some r # rs \<Longrightarrow> status_code r = 200 \<Longrightarrow>
   attempt_request_get t url params w
     = (Inr (Some r), t, w\<lparr>replies := rs, sent := sent w @ [api_request t tok url params]\<rparr>)"
  by (simp add: attempt_request_get_def requests_send_def validate_response_def api_request_def)

lemma script_twitch_same: "s_twitch s = Some t \<Longrightarrow> s\<lparr>s_twitch := Some t\<rparr> = s"
  by (cases s) auto

lemma nat_dec_52: "nat_dec 52 = ''52''"
  by code_simp

lemma nat_dec_72: "nat_dec 72 = ''72''"
  by code_simp

lemma width_at_72: "py_round_ratio (72 * fst BOXART_RATIO) (snd BOXART_RATIO) = 52"
  by (simp add: py_round_ratio_def BOXART_RATIO_def Let_def)

text \<open>The embed of the start notice is valid, and this is its wire form.\<close>

lemma start_embed_valid:
  "length title \<le> 6000 \<Longrightarrow> now \<noteq> [] \<Longrightarrow> url \<noteq> [] \<Longrightarrow>
   valid_embeds_json
     [set_timestamp (DiscordEmbed_init [(''title'', PStr title), (''url'', PStr url), (''image'', PDict img)])
        (Some []) now]
   = Inr [PDict ((if title = [] then [] else [(''title'', PStr title)])
            @ [(''url'', PStr url), (''timestamp'', PStr now)]
            @ (if img = [] then [] else [(''image'', PDict img)]))]"
  by (simp add: set_timestamp_def DiscordEmbed_init_def kw_get_def is_embed_valid_def
      embed_length_def py_or_def is_empty_def MaxLength_def json_def attributes_def)

lemma start_scenario_folded:
  assumes session: "s_twitch s = Some t" "t_is_authenticated t"
      "py_format (t_access_token t) = Inr tok" "header_value_ok (t_client_id t)"
    and config: "s_username s = PStr ''alice''" "s_boxart_height s = 72"
      "s_do_discord_start_notice s" "s_hooks_list s = urls" "urls \<noteq> []"
      "s_discord_start_msg s = Some msg" "msg \<noteq> []"
    and script: "replies w = Some ru # Some rc # Some rg # map Some posts @ rest"
      "length posts = length urls" "clock w \<noteq> []"
    and user: "status_code ru = 200" "users_result ru = Inr info"
      "single_record info = Inr user_info" "user_info \<noteq> PNone"
      "py_get user_info ''id'' PNone = Inr uid"
    and channel: "status_code rc = 200" "channel_result rc = Inr channel_info"
      "channel_info \<noteq> PNone"
      "channel_fields channel_info = Inr (PStr ''GameX'', game_id, PStr ''My Title'', PStr ''alice'')"
      "py_isdecimal game_id = Inr dec"
    and game: "status_code rg = 200" "games_result rg = Inr data" "first_record data = Inr found"
      "box_art (py_or found (PDict [])) 52 72 = Inr boxart_url"
  shows "on_start s w =
    (Inr (), s\<lparr>s_is_streaming := True\<rparr>,
     w\<lparr>replies := rest,
       sent := sent w
         @ [api_request t tok Users [(''login'', PStr ''alice'')],
            api_request t tok Channels [(''broadcaster_id'', uid)],
            api_request t tok Games [(if dec then ''id'' else ''name'', game_id)]]
         @ map (\<lambda>url. webhook_request url
                  [(''content'', PStr msg),
                   (''embeds'', PList [PDict
                      [(''title'', PStr ''alice is streaming GameX on twitch.tv  | My Title''),
                       (''url'', PStr ''https://www.twitch.tv/alice/''),
                       (''timestamp'', PStr (clock w)),
                       (''image'', PDict [(''url'', PStr boxart_url), (''width'', PInt 52),
                                          (''height'', PInt 72)])]])])
             urls\<rparr>)"
proof -
  let ?w1 = "w\<lparr>replies := Some rc # Some rg # map Some posts @ rest,
               sent := sent w @ [api_request t tok Users [(''login'', PStr ''alice'')]]\<rparr>"
  let ?w2 = "w\<lparr>replies := Some rg # map Some posts @ rest,
               sent := sent w @ [api_request t tok Users [(''login'', PStr ''alice'')],
                                 api_request t tok Channels [(''broadcaster_id'', uid)]]\<rparr>"
  let ?w3 = "w\<lparr>replies := map Some posts @ rest,
               sent := sent w @ [api_request t tok Users [(''login'', PStr ''alice'')],
                                 api_request t tok Channels [(''broadcaster_id'', uid)],
                                 api_request t tok Games [(if dec then ''id'' else ''name'', game_id)]]\<rparr>"
  have u: "get_user_info t (PStr ''alice'') w = (Inr user_info, t, ?w1)"
    using session(3,4) script(1) user(1,2,3)
    by (simp add: get_user_info_def get_users_info_def UserRequests_def is_digit_def
        attempt_request_get_ok)
  have c: "get_channel_info t uid ?w1 = (Inr channel_info, t, ?w2)"
    using session(3,4) channel(1,2)
    by (simp add: get_channel_info_def attempt_request_get_ok)
  have g: "get_game_info t game_id ?w2 = (Inr found, t, ?w3)"
    using session(3,4) channel(5) game(1,2,3)
    by (simp add: get_game_info_def get_games_info_def GamesRequests_def attempt_request_get_ok)
  have info: "get_relavent_channel_info s PNone w =
      (Inr (PStr ''alice'', PStr ''My Title'', PStr ''GameX'', game_id, boxart_url, 52, 72), s, ?w3)"
    using session(1,2) config(1,2) user(4,5) channel(3,4) game(4) u c g
    by (simp add: get_relavent_channel_info_def resolve_user_id_def width_at_72
        script_twitch_same)
  let ?entry = "[(''embeds'', PList [PDict
                      [(''title'', PStr ''alice is streaming GameX on twitch.tv  | My Title''),
                       (''url'', PStr ''https://www.twitch.tv/alice/''),
                       (''timestamp'', PStr (clock w)),
                       (''image'', PDict [(''url'', PStr boxart_url), (''width'', PInt 52),
                                          (''height'', PInt 72)])]])]"
  let ?h = "\<lparr> wh_urls = map (\<lambda>url. (url, None, None)) urls, wh_content = Some msg,
             wh_embeds = Some [set_timestamp
               (DiscordEmbed_init
                  [(''title'', PStr ''alice is streaming GameX on twitch.tv  | My Title''),
                   (''url'', PStr ''https://www.twitch.tv/alice/''),
                   (''image'', PDict [(''url'', PStr boxart_url), (''width'', PInt 52),
                                      (''height'', PInt 72)])])
               (Some []) (clock w)] \<rparr>"
  have valid: "has_valid_message ?h"
    by (simp add: has_valid_message_def)
  have entry: "embeds_entry ?h = Inr ?entry"
    using script(3) by (simp add: embeds_entry_def start_embed_valid del: valid_embeds_json.simps)
  have ans: "answered (length (map (\<lambda>url. (url, None, None)) urls)) ?w3"
    using script(2) answered_prefix [of ?w3 posts rest] by simp
  have fan: "execute_all ?h (map (\<lambda>url. (url, None, None)) urls) ?w3 =
      (Inr (), ?w3\<lparr>replies := drop (length (map (\<lambda>url. (url, None, None)) urls)) (replies ?w3),
               sent := sent ?w3 @ map (\<lambda>(url, username, avatar_url).
                  webhook_request url (opt_entry_str ''content'' (wh_content ?h) @ ?entry
                    @ opt_entry_str ''username'' username @ opt_entry_str ''avatar_url'' avatar_url))
                  (map (\<lambda>url. (url, None, None)) urls)\<rparr>)"
    using execute_all_answered [OF valid entry ans] by simp
  have notice: "start_notice s (PStr ''alice'') (PStr ''My Title'') (PStr ''GameX'') boxart_url 52 72 ?w3 =
      (Inr (), w\<lparr>replies := rest,
        sent := sent w
         @ [api_request t tok Users [(''login'', PStr ''alice'')],
            api_request t tok Channels [(''broadcaster_id'', uid)],
            api_request t tok Games [(if dec then ''id'' else ''name'', game_id)]]
         @ map (\<lambda>url. webhook_request url ([(''content'', PStr msg)] @ ?entry)) urls\<rparr>)"
    using config(1,3,4,5,6,7) script(2) valid fan
    by (simp add: start_notice_def execute_on_urls_def DiscordWebhook_init_def execute_def
        opt_entry_str_def o_def)
  show ?thesis
    using info notice by (simp add: on_start_def)
qed

text \<open>
  C7, as amended. The start event with the start notice enabled, the username
  \<open>alice\<close>, a box-art height of 72, at least one webhook url and a non-empty start
  message, on an authenticated session whose client id and access token are strings.
  The user lookup is answered with status 200 and one record, the channel lookup with
  status 200 and a first record whose \<open>broadcaster_name\<close> is \<open>alice\<close>, \<open>game_name\<close> is
  \<open>GameX\<close>, \<open>title\<close> is \<open>My Title\<close> and \<open>game_id\<close> a string, the game lookup with
  status 200 and a first record whose \<open>box_art_url\<close> is a string, and the transport
  answers every POST (with any status). Then the handler returns normally with the
  streaming flag set, and it has sent the three lookups followed by exactly one POST
  per configured webhook url, in order, each to that url with the header
  \<open>Content-Type: application/json\<close>, the parameter \<open>wait=true\<close> and a body holding the
  start message as \<open>content\<close> and one embed: the title
  \<open>alice is streaming GameX on twitch.tv  | My Title\<close> (the name in it is the channel
  record's \<open>broadcaster_name\<close>), the channel url, the current time, and the box art with
  \<open>{width}x{height}\<close> replaced by \<open>52x72\<close>, width 52 and height 72.
\<close>

theorem stream_started_scenario:
  assumes session: "s_twitch s = Some t" "t_is_authenticated t"
      "t_client_id t = PStr cid" "t_access_token t = PStr tok"
    and config: "s_username s = PStr ''alice''" "s_boxart_height s = 72"
      "s_do_discord_start_notice s" "s_hooks_list s = urls" "urls \<noteq> []"
      "s_discord_start_msg s = Some msg" "msg \<noteq> []"
    and transport: "replies w = Some ru # Some rc # Some rg # map Some answers @ rest"
      "length answers = length urls" "clock w \<noteq> []"
    and user: "status_code ru = 200" "resp_json ru = Some (PDict ubody)"
      "map_of ubody ''data'' = Some (PList [PDict urec])" "map_of urec ''id'' = Some uid"
    and channel: "status_code rc = 200" "resp_json rc = Some (PDict cbody)"
      "map_of cbody ''data'' = Some (PList (PDict crec # cmore))"
      "map_of crec ''broadcaster_name'' = Some (PStr ''alice'')"
      "map_of crec ''game_name'' = Some (PStr ''GameX'')"
      "map_of crec ''title'' = Some (PStr ''My Title'')"
      "map_of crec ''game_id'' = Some (PStr gid)"
    and game: "status_code rg = 200" "resp_json rg = Some (PDict gbody)"
      "map_of gbody ''data'' = Some (PList (PDict grec # gmore))"
      "map_of grec ''box_art_url'' = Some (PStr art)"
  shows "on_start s w =
    (Inr (), s\<lparr>s_is_streaming := True\<rparr>,
     w\<lparr>replies := rest,
       sent := sent w
         @ [\<lparr> req_verb = GET, req_url = ''https://api.twitch.tv/helix/users'',
              req_headers = [(''Client-ID'', PStr cid), (''Authorization'', PStr (''Bearer '' @ tok))],
              req_params = [(''login'', PStr ''alice'')], req_json = None \<rparr>,
            \<lparr> req_verb = GET, req_url = ''https://api.twitch.tv/helix/channels'',
              req_headers = [(''Client-ID'', PStr cid), (''Authorization'', PStr (''Bearer '' @ tok))],
              req_params = [(''broadcaster_id'', uid)], req_json = None \<rparr>,
            \<lparr> req_verb = GET, req_url = ''https://api.twitch.tv/helix/games'',
              req_headers = [(''Client-ID'', PStr cid), (''Authorization'', PStr (''Bearer '' @ tok))],
              req_params = [(if gid \<noteq> [] \<and> list_all is_digit gid then ''id'' else ''name'', PStr gid)],
              req_json = None \<rparr>]
         @ map (\<lambda>url.
              \<lparr> req_verb = POST, req_url = url,
                req_headers = [(''Content-Type'', PStr ''application/json'')],
                req_params = [(''wait'', PStr ''true'')],
                req_json = Some (PDict
                  [(''content'', PStr msg),
                   (''embeds'', PList [PDict
                      [(''title'', PStr ''alice is streaming GameX on twitch.tv  | My Title''),
                       (''url'', PStr ''https://www.twitch.tv/alice/''),
                       (''timestamp'', PStr (clock w)),
                       (''image'', PDict [(''url'', PStr (py_replace ''{width}x{height}'' ''52x72'' art)),
                                          (''width'', PInt 52), (''height'', PInt 72)])]])]) \<rparr>)
             urls\<rparr>)"
proof -
  have grec: "grec \<noteq> []"
    using game(4) by auto
  have art: "box_art (py_or (PDict grec) (PDict [])) 52 72
      = Inr (py_replace ''{width}x{height}'' ''52x72'' art)"
    using game(4) grec by (simp add: box_art_def py_or_def int_dec_def nat_dec_52 nat_dec_72)
  have "on_start s w =
    (Inr (), s\<lparr>s_is_streaming := True\<rparr>,
     w\<lparr>replies := rest,
       sent := sent w
         @ [api_request t tok Users [(''login'', PStr ''alice'')],
            api_request t tok Channels [(''broadcaster_id'', uid)],
            api_request t tok Games
              [(if gid \<noteq> [] \<and> list_all is_digit gid then ''id'' else ''name'', PStr gid)]]
         @ map (\<lambda>url. webhook_request url
                  [(''content'', PStr msg),
                   (''embeds'', PList [PDict
                      [(''title'', PStr ''alice is streaming GameX on twitch.tv  | My Title''),
                       (''url'', PStr ''https://www.twitch.tv/alice/''),
                       (''timestamp'', PStr (clock w)),
                       (''image'', PDict [(''url'', PStr (py_replace ''{width}x{height}'' ''52x72'' art)),
                                          (''width'', PInt 52), (''height'', PInt 72)])]])])
             urls\<rparr>)"
  proof (rule start_scenario_folded [where ru = ru and rc = rc and rg = rg and posts = answers
        and info = "PList [PDict urec]" and user_info = "PDict urec"
        and channel_info = "PDict crec" and data = "PList (PDict grec # gmore)"
        and found = "PDict grec"])
    show "users_result ru = Inr (PList [PDict urec])"
      using user(2,3) by (simp add: users_result_def response_json_def)
    show "channel_result rc = Inr (PDict crec)"
      using channel(2,3) by (simp add: channel_result_def response_json_def first_record_def)
    show "channel_fields (PDict crec)
        = Inr (PStr ''GameX'', PStr gid, PStr ''My Title'', PStr ''alice'')"
      using channel(4,5,6,7) by (simp add: channel_fields_def)
    show "games_result rg = Inr (PList (PDict grec # gmore))"
      using game(2,3) by (simp add: games_result_def response_json_def)
    show "box_art (py_or (PDict grec) (PDict [])) 52 72
        = Inr (py_replace ''{width}x{height}'' ''52x72'' art)"
      by (rule art)
  qed (insert assms, simp_all add: single_record_def first_record_def)
  then show ?thesis
    using session(3)
    by (simp add: api_request_def webhook_request_def Users_def Channels_def Games_def)
qed

theorem stream_started_scenario_witness:
  "on_start
     \<lparr> s_discord_start_msg = Some ''live'', s_discord_stop_msg = None, s_username = PStr ''alice'',
       s_boxart_height = 72, s_hooks_list = [''https://discord.test/a'', ''https://discord.test/b''],
       s_twitch = Some \<lparr> t_client_id = PStr ''cid'', t_client_secret = PNone,
                          t_access_token = PStr ''tok'', t_refresh_token = PNone,
                          t_is_authenticated = True, t_scopes = None \<rparr>,
       s_is_streaming = False, s_loaded = True, s_do_discord_start_notice = True,
       s_do_discord_stop_notice = False \<rparr>
     \<lparr> replies = [Some (\<lparr> status_code = 200, resp_headers = [], resp_json = Some (PDict [(''data'', PList [PDict [(''id'', PStr ''1'')]])]) \<rparr>),
          Some (\<lparr> status_code = 200, resp_headers = [], resp_json = Some (PDict [(''data'', PList [PDict
             [(''broadcaster_name'', PStr ''alice''), (''game_name'', PStr ''GameX''),
              (''game_id'', PStr ''5''), (''title'', PStr ''My Title'')]])]) \<rparr>),
          Some (\<lparr> status_code = 200, resp_headers = [], resp_json = Some (PDict [(''data'', PList [PDict
             [(''box_art_url'', PStr ''https://b/{width}x{height}.jpg'')]])]) \<rparr>),
          Some \<lparr> status_code = 500, resp_headers = [], resp_json = None \<rparr>,
          Some \<lparr> status_code = 204, resp_headers = [], resp_json = None \<rparr>],
       sent = [], clock = ''2024-01-01T00:00:00+00:00'', twitch_auth_file = None \<rparr>
   = (Inr (),
      \<lparr> s_discord_start_msg = Some ''live'', s_discord_stop_msg = None, s_username = PStr ''alice'',
       s_boxart_height = 72, s_hooks_list = [''https://discord.test/a'', ''https://discord.test/b''],
       s_twitch = Some \<lparr> t_client_id = PStr ''cid'', t_client_secret = PNone,
                          t_access_token = PStr ''tok'', t_refresh_token = PNone,
                          t_is_authenticated = True, t_scopes = None \<rparr>,
       s_is_streaming = True, s_loaded = True, s_do_discord_start_notice = True,
       s_do_discord_stop_notice = False \<rparr>,
      \<lparr> replies = [],
       sent = 
          [\<lparr> req_verb = GET, req_url = ''https://api.twitch.tv/helix/users'',
             req_headers = [(''Client-ID'', PStr ''cid''), (''Authorization'', PStr ''Bearer tok'')],
             req_params = [(''login'', PStr ''alice'')], req_json = None \<rparr>,
           \<lparr> req_verb = GET, req_url = ''https://api.twitch.tv/helix/channels'',
             req_headers = [(''Client-ID'', PStr ''cid''), (''Authorization'', PStr ''Bearer tok'')],
             req_params = [(''broadcaster_id'', PStr ''1'')], req_json = None \<rparr>,
           \<lparr> req_verb = GET, req_url = ''https://api.twitch.tv/helix/games'',
             req_headers = [(''Client-ID'', PStr ''cid''), (''Authorization'', PStr ''Bearer tok'')],
             req_params = [(''id'', PStr ''5'')], req_json = None \<rparr>,
           \<lparr> req_verb = POST, req_url = ''https://discord.test/a'',
             req_headers = [(''Content-Type'', PStr ''application/json'')],
             req_params = [(''wait'', PStr ''true'')],
             req_json = Some (PDict
               [(''content'', PStr ''live''),
                (''embeds'', PList [PDict
                   [(''title'', PStr ''alice is streaming GameX on twitch.tv  | My Title''),
                    (''url'', PStr ''https://www.twitch.tv/alice/''),
                    (''timestamp'', PStr ''2024-01-01T00:00:00+00:00''),
                    (''image'', PDict [(''url'', PStr ''https://b/52x72.jpg''), (''width'', PInt 52),
                                       (''height'', PInt 72)])]])]) \<rparr>,
           \<lparr> req_verb = POST, req_url = ''https://discord.test/b'',
             req_headers = [(''Content-Type'', PStr ''application/json'')],
             req_params = [(''wait'', PStr ''true'')],
             req_json = Some (PDict
               [(''content'', PStr ''live''),
                (''embeds'', PList [PDict
                   [(''title'', PStr ''alice is streaming GameX on twitch.tv  | My Title''),
                    (''url'', PStr ''https://www.twitch.tv/alice/''),
                    (''timestamp'', PStr ''2024-01-01T00:00:00+00:00''),
                    (''image'', PDict [(''url'', PStr ''https://b/52x72.jpg''), (''width'', PInt 52),
                                       (''height'', PInt 72)])]])]) \<rparr>], clock = ''2024-01-01T00:00:00+00:00'', twitch_auth_file = None \<rparr>)"
proof -
  let ?t = "\<lparr> t_client_id = PStr ''cid'', t_client_secret = PNone,
              t_access_token = PStr ''tok'', t_refresh_token = PNone,
              t_is_authenticated = True, t_scopes = None \<rparr>"
  let ?s = "\<lparr> s_discord_start_msg = Some ''live'', s_discord_stop_msg = None, s_username = PStr ''alice'',
       s_boxart_height = 72, s_hooks_list = [''https://discord.test/a'', ''https://discord.test/b''],
       s_twitch = Some \<lparr> t_client_id = PStr ''cid'', t_client_secret = PNone,
                          t_access_token = PStr ''tok'', t_refresh_token = PNone,
                          t_is_authenticated = True, t_scopes = None \<rparr>,
       s_is_streaming = False, s_loaded = True, s_do_discord_start_notice = True,
       s_do_discord_stop_notice = False \<rparr>"
  let ?urec = "[(''id'', PStr ''1'')]"
  let ?crec = "[(''broadcaster_name'', PStr ''alice''), (''game_name'', PStr ''GameX''),
              (''game_id'', PStr ''5''), (''title'', PStr ''My Title'')]"
  let ?grec = "[(''box_art_url'', PStr ''https://b/{width}x{height}.jpg'')]"
  let ?ubody = "[(''data'', PList [PDict ?urec])]"
  let ?cbody = "[(''data'', PList [PDict ?crec])]"
  let ?gbody = "[(''data'', PList [PDict ?grec])]"
  let ?ru = "\<lparr> status_code = 200, resp_headers = [], resp_json = Some (PDict ?ubody) \<rparr>"
  let ?rc = "\<lparr> status_code = 200, resp_headers = [], resp_json = Some (PDict ?cbody) \<rparr>"
  let ?rg = "\<lparr> status_code = 200, resp_headers = [], resp_json = Some (PDict ?gbody) \<rparr>"
  let ?a1 = "\<lparr> status_code = 500, resp_headers = [], resp_json = None \<rparr>"
  let ?a2 = "\<lparr> status_code = 204, resp_headers = [], resp_json = None \<rparr>"
  let ?w = "\<lparr> replies = [Some ?ru, Some ?rc, Some ?rg, Some ?a1, Some ?a2],
       sent = [], clock = ''2024-01-01T00:00:00+00:00'', twitch_auth_file = None \<rparr>"
  have art: "py_replace ''{width}x{height}'' ''52x72'' ''https://b/{width}x{height}.jpg''
      = ''https://b/52x72.jpg''"
    by simp
  have step: "on_start ?s ?w =
    (Inr (), ?s\<lparr>s_is_streaming := True\<rparr>,
     ?w\<lparr>replies := [],
       sent := sent ?w
         @ [\<lparr> req_verb = GET, req_url = ''https://api.twitch.tv/helix/users'',
              req_headers = [(''Client-ID'', PStr ''cid''), (''Authorization'', PStr (''Bearer '' @ ''tok''))],
              req_params = [(''login'', PStr ''alice'')], req_json = None \<rparr>,
            \<lparr> req_verb = GET, req_url = ''https://api.twitch.tv/helix/channels'',
              req_headers = [(''Client-ID'', PStr ''cid''), (''Authorization'', PStr (''Bearer '' @ ''tok''))],
              req_params = [(''broadcaster_id'', PStr ''1'')], req_json = None \<rparr>,
            \<lparr> req_verb = GET, req_url = ''https://api.twitch.tv/helix/games'',
              req_headers = [(''Client-ID'', PStr ''cid''), (''Authorization'', PStr (''Bearer '' @ ''tok''))],
              req_params = [(if ''5'' \<noteq> [] \<and> list_all is_digit ''5'' then ''id'' else ''name'', PStr ''5'')],
              req_json = None \<rparr>]
         @ map (\<lambda>url.
              \<lparr> req_verb = POST, req_url = url,
                req_headers = [(''Content-Type'', PStr ''application/json'')],
                req_params = [(''wait'', PStr ''true'')],
                req_json = Some (PDict
                  [(''content'', PStr ''live''),
                   (''embeds'', PList [PDict
                      [(''title'', PStr ''alice is streaming GameX on twitch.tv  | My Title''),
                       (''url'', PStr ''https://www.twitch.tv/alice/''),
                       (''timestamp'', PStr (clock ?w)),
                       (''image'', PDict [(''url'', PStr (py_replace ''{width}x{height}'' ''52x72''
                                                            ''https://b/{width}x{height}.jpg'')),
                                          (''width'', PInt 52), (''height'', PInt 72)])]])]) \<rparr>)
             [''https://discord.test/a'', ''https://discord.test/b'']\<rparr>)"
    by (rule stream_started_scenario [where t = ?t and ru = ?ru and rc = ?rc and rg = ?rg
          and answers = "[?a1, ?a2]" and rest = "[]" and ubody = ?ubody and urec = ?urec
          and cbody = ?cbody and crec = ?crec and cmore = "[]" and gbody = ?gbody
          and grec = ?grec and gmore = "[]"]) simp_all
  then show ?thesis
    by (simp add: art is_digit_def)
qed

text \<open>
  C7 as stated fails: the name in the title is the channel record's
  \<open>broadcaster_name\<close>, not the configured username. With the username \<open>alice\<close> and a
  channel lookup that returns the game \<open>GameX\<close>, the title \<open>My Title\<close> and the broadcaster
  name \<open>Alice\<close>, the embed title posted is
  \<open>Alice is streaming GameX on twitch.tv  | My Title\<close>.
\<close>

theorem title_uses_broadcaster_name:
  "on_start
     \<lparr> s_discord_start_msg = Some ''live'', s_discord_stop_msg = None, s_username = PStr ''alice'',
       s_boxart_height = 72, s_hooks_list = [''https://discord.test/hook''],
       s_twitch = Some \<lparr> t_client_id = PStr ''cid'', t_client_secret = PNone,
                          t_access_token = PStr ''tok'', t_refresh_token = PNone,
                          t_is_authenticated = True, t_scopes = None \<rparr>,
       s_is_streaming = False, s_loaded = True, s_do_discord_start_notice = True,
       s_do_discord_stop_notice = False \<rparr>
     \<lparr> replies = [Some (\<lparr> status_code = 200, resp_headers = [], resp_json = Some (PDict [(''data'', PList [PDict [(''id'', PStr ''1'')]])]) \<rparr>),
          Some (\<lparr> status_code = 200, resp_headers = [], resp_json = Some (PDict [(''data'', PList [PDict
             [(''broadcaster_name'', PStr ''Alice''), (''game_name'', PStr ''GameX''),
              (''game_id'', PStr ''5''), (''title'', PStr ''My Title'')]])]) \<rparr>),
          Some (\<lparr> status_code = 200, resp_headers = [], resp_json = Some (PDict [(''data'', PList [PDict
             [(''box_art_url'', PStr ''https://b/{width}x{height}.jpg'')]])]) \<rparr>),
          Some \<lparr> status_code = 204, resp_headers = [], resp_json = None \<rparr>],
       sent = [], clock = ''2024-01-01T00:00:00+00:00'', twitch_auth_file = None \<rparr>
   = (Inr (),
      \<lparr> s_discord_start_msg = Some ''live'', s_discord_stop_msg = None, s_username = PStr ''alice'',
       s_boxart_height = 72, s_hooks_list = [''https://discord.test/hook''],
       s_twitch = Some \<lparr> t_client_id = PStr ''cid'', t_client_secret = PNone,
                          t_access_token = PStr ''tok'', t_refresh_token = PNone,
                          t_is_authenticated = True, t_scopes = None \<rparr>,
       s_is_streaming = True, s_loaded = True, s_do_discord_start_notice = True,
       s_do_discord_stop_notice = False \<rparr>,
      \<lparr> replies = [],
       sent = 
          [\<lparr> req_verb = GET, req_url = ''https://api.twitch.tv/helix/users'',
             req_headers = [(''Client-ID'', PStr ''cid''), (''Authorization'', PStr ''Bearer tok'')],
             req_params = [(''login'', PStr ''alice'')], req_json = None \<rparr>,
           \<lparr> req_verb = GET, req_url = ''https://api.twitch.tv/helix/channels'',
             req_headers = [(''Client-ID'', PStr ''cid''), (''Authorization'', PStr ''Bearer tok'')],
             req_params = [(''broadcaster_id'', PStr ''1'')], req_json = None \<rparr>,
           \<lparr> req_verb = GET, req_url = ''https://api.twitch.tv/helix/games'',
             req_headers = [(''Client-ID'', PStr ''cid''), (''Authorization'', PStr ''Bearer tok'')],
             req_params = [(''id'', PStr ''5'')], req_json = None \<rparr>,
           \<lparr> req_verb = POST, req_url = ''https://discord.test/hook'',
             req_headers = [(''Content-Type'', PStr ''application/json'')],
             req_params = [(''wait'', PStr ''true'')],
             req_json = Some (PDict
               [(''content'', PStr ''live''),
                (''embeds'', PList [PDict
                   [(''title'', PStr ''Alice is streaming GameX on twitch.tv  | My Title''),
                    (''url'', PStr ''https://www.twitch.tv/alice/''),
                    (''timestamp'', PStr ''2024-01-01T00:00:00+00:00''),
                    (''image'', PDict [(''url'', PStr ''https://b/52x72.jpg''), (''width'', PInt 52),
                                       (''height'', PInt 72)])]])]) \<rparr>], clock = ''2024-01-01T00:00:00+00:00'', twitch_auth_file = None \<rparr>)
   \<and> ''Alice is streaming GameX on twitch.tv  | My Title''
       \<noteq> ''alice is streaming GameX on twitch.tv  | My Title''"
  by code_simp

end
